theory Spec2Isabelle
  imports Complex_Main
begin

section \<open>Errors and Python helpers\<close>

text \<open>
  The assertions of \<open>src/models/convnext.py\<close>, named by what they check:
  \<open>KernelCount\<close> is line 70 (\<open>len(kernel_sizes) == 3\<close>), \<open>KernelTriple\<close> is line 71
  (the sizes are 3, 11, 11), \<open>No22k\<close> is the factories' \<open>assert not in_22k\<close> and
  \<open>OnlyXL22k\<close> is line 461.
\<close>

datatype assertion = KernelCount | KernelTriple | No22k | OnlyXL22k

datatype error =
    AssertionError assertion
  | ValueError
  | RuntimeError
  | IndexError
  | KeyError
  | NotImplementedError

definition bnd :: "error + 'a \<Rightarrow> ('a \<Rightarrow> error + 'b) \<Rightarrow> error + 'b" where
  "bnd m f = (case m of Inl e \<Rightarrow> Inl e | Inr x \<Rightarrow> f x)"

text \<open>Python list indexing: negative indices count from the end, out of range raises.\<close>

definition py_get :: "'a list \<Rightarrow> int \<Rightarrow> error + 'a" where
  "py_get xs i =
     (if 0 \<le> i \<and> i < int (length xs) then Inr (xs ! nat i)
      else if i < 0 \<and> - int (length xs) \<le> i then Inr (xs ! nat (int (length xs) + i))
      else Inl IndexError)"

text \<open>Python's \<open>int(v)\<close> on a float truncates towards zero. Floats are modelled as reals.\<close>

definition int_of_float :: "real \<Rightarrow> int" where
  "int_of_float v = (if 0 \<le> v then \<lfloor>v\<rfloor> else \<lceil>v\<rceil>)"

text \<open>Running a fallible function over a list, stopping at the first error
  (a list comprehension whose element expression may raise).\<close>

fun mapM :: "('a \<Rightarrow> error + 'b) \<Rightarrow> 'a list \<Rightarrow> error + 'b list" where
  "mapM f [] = Inr []"
| "mapM f (x # xs) = bnd (f x) (\<lambda>y. bnd (mapM f xs) (\<lambda>ys. Inr (y # ys)))"

section \<open>Tensors\<close>

text \<open>
  A four-axis tensor: its sizes and its elements, nested in axis order. The sizes are kept
  beside the elements because a tensor with an empty axis (\<open>[N, 0, H, W]\<close>) still has
  the other sizes, and the library checks them.
\<close>

datatype 'a tensor = Tensor (shape: "nat \<times> nat \<times> nat \<times> nat") (vals: "'a list list list list")

definition tab4 :: "nat \<times> nat \<times> nat \<times> nat \<Rightarrow> (nat \<Rightarrow> nat \<Rightarrow> nat \<Rightarrow> nat \<Rightarrow> 'a) \<Rightarrow> 'a tensor" where
  "tab4 s f = (case s of (a, b, c, d) \<Rightarrow>
     Tensor s (map (\<lambda>i. map (\<lambda>j. map (\<lambda>k. map (\<lambda>l. f i j k l) [0..<d]) [0..<c]) [0..<b]) [0..<a]))"

definition at4 :: "'a tensor \<Rightarrow> nat \<Rightarrow> nat \<Rightarrow> nat \<Rightarrow> nat \<Rightarrow> 'a" where
  "at4 t i j k l = vals t ! i ! j ! k ! l"

definition wf :: "'a tensor \<Rightarrow> bool" where
  "wf t = (case shape t of (a, b, c, d) \<Rightarrow>
     length (vals t) = a \<and>
     list_all (\<lambda>x. length x = b \<and>
       list_all (\<lambda>y. length y = c \<and> list_all (\<lambda>z. length z = d) y) x) (vals t))"

text \<open>
  The numbers a library layer computes with its current parameters are not modelled: a layer
  carries them as a function from its input and an output position to the output element.
  What the library checks about sizes is modelled in full.
\<close>

type_synonym 'a arith = "'a tensor \<Rightarrow> nat \<Rightarrow> nat \<Rightarrow> nat \<Rightarrow> nat \<Rightarrow> 'a"

type_synonym weights = "string \<Rightarrow> real arith"

section \<open>Library layers: construction\<close>

record 'a Conv2d =
  in_channels :: int
  out_channels :: int
  kernel_size :: "nat \<times> nat"
  stride :: "nat \<times> nat"
  padding :: "nat \<times> nat"
  dilation :: "nat \<times> nat"
  groups :: int
  conv_arith :: "'a arith"

text \<open>\<open>torch.nn.Conv2d(in_channels, out_channels, kernel_size, stride, padding, dilation, groups)\<close>:
  the group count must be positive and divide both channel counts; a negative channel
  count cannot be allocated.\<close>

definition Conv2d_init ::
  "'a arith \<Rightarrow> int \<Rightarrow> int \<Rightarrow> nat \<times> nat \<Rightarrow> nat \<times> nat \<Rightarrow> nat \<times> nat \<Rightarrow> nat \<times> nat \<Rightarrow> int
   \<Rightarrow> error + 'a Conv2d" where
  "Conv2d_init ar in_chs out_chs ks st pd dl gps =
     (if gps \<le> 0 then Inl ValueError
      else if in_chs mod gps \<noteq> 0 then Inl ValueError
      else if out_chs mod gps \<noteq> 0 then Inl ValueError
      else if in_chs < 0 \<or> out_chs < 0 then Inl RuntimeError
      else Inr \<lparr>in_channels = in_chs, out_channels = out_chs, kernel_size = ks, stride = st,
                padding = pd, dilation = dl, groups = gps, conv_arith = ar\<rparr>)"

record 'a Linear =
  in_features :: int
  out_features :: int
  lin_arith :: "'a arith"

definition Linear_init :: "'a arith \<Rightarrow> int \<Rightarrow> int \<Rightarrow> error + 'a Linear" where
  "Linear_init ar i out =
     (if i < 0 \<or> out < 0 then Inl RuntimeError
      else Inr \<lparr>in_features = i, out_features = out, lin_arith = ar\<rparr>)"

text \<open>\<open>torch.nn.LayerNorm(normalized_shape, eps)\<close>, the library's own normalisation.\<close>

record 'a nn_LayerNorm =
  nn_normalized_shape :: "int list"
  nn_eps :: real
  nn_arith :: "'a arith"

definition nn_LayerNorm_init :: "'a arith \<Rightarrow> int list \<Rightarrow> real \<Rightarrow> error + 'a nn_LayerNorm" where
  "nn_LayerNorm_init ar ns e =
     (if list_ex (\<lambda>n. n < 0) ns then Inl RuntimeError
      else Inr \<lparr>nn_normalized_shape = ns, nn_eps = e, nn_arith = ar\<rparr>)"

text \<open>\<open>timm.models.layers.DropPath(drop_prob)\<close> and \<open>torch.nn.Identity()\<close>, the two values
  a block's \<open>drop_path\<close> attribute takes.\<close>

datatype drop_path_module = DropPath real | Identity

section \<open>PartialConv2d\<close>

record 'a PartialConv2d =
  conv :: "'a Conv2d"
  split_indices :: "int \<times> int"

definition PartialConv2d_init ::
  "'a arith \<Rightarrow> int \<Rightarrow> int \<Rightarrow> nat \<times> nat \<Rightarrow> real \<Rightarrow> nat \<times> nat \<Rightarrow> nat \<times> nat \<Rightarrow> nat \<times> nat \<Rightarrow> int
   \<Rightarrow> error + 'a PartialConv2d" where
  "PartialConv2d_init ar in_channels' out_channels' ks conv_ratio st pd dl groups' =
     (let in_chs = int_of_float (of_int in_channels' * conv_ratio);
          out_chs = int_of_float (of_int out_channels' * conv_ratio);
          g = int_of_float (of_int groups' * conv_ratio);
          gps = (if g \<noteq> 0 then g else 1)
      in bnd (Conv2d_init ar in_chs out_chs ks st pd dl gps) (\<lambda>c.
         Inr \<lparr>conv = c, split_indices = (in_channels' - in_chs, in_chs)\<rparr>))"

text \<open>
  The convolution constructor a block is given: \<open>nn.Conv2d\<close> itself, or
  \<open>partial(PartialConv2d, conv_ratio=r)\<close>. Both are called with a kernel size, a padding
  and a group count; stride and dilation keep their default 1.
\<close>

datatype conv_fn = Conv2d_fn | PartialConv2d_fn real

datatype 'a conv_module = Std "'a Conv2d" | Partial "'a PartialConv2d"

definition conv_fn_call ::
  "conv_fn \<Rightarrow> 'a arith \<Rightarrow> int \<Rightarrow> int \<Rightarrow> nat \<times> nat \<Rightarrow> nat \<times> nat \<Rightarrow> int \<Rightarrow> error + 'a conv_module" where
  "conv_fn_call fn ar i out ks pd gps =
     (case fn of
        Conv2d_fn \<Rightarrow> bnd (Conv2d_init ar i out ks (1, 1) pd (1, 1) gps) (\<lambda>c. Inr (Std c))
      | PartialConv2d_fn r \<Rightarrow>
          bnd (PartialConv2d_init ar i out ks r (1, 1) pd (1, 1) gps) (\<lambda>c. Inr (Partial c)))"

section \<open>LayerNorm (the repository's class)\<close>

record LayerNorm =
  weight :: "real list"
  bias :: "real list"
  eps :: real
  data_format :: string
  normalized_shape :: int

definition LayerNorm_init :: "int \<Rightarrow> real \<Rightarrow> string \<Rightarrow> error + LayerNorm" where
  "LayerNorm_init ns e fmt =
     (if ns < 0 then Inl RuntimeError
      else if fmt \<notin> set [''channels_last'', ''channels_first''] then Inl NotImplementedError
      else Inr \<lparr>weight = replicate (nat ns) 1, bias = replicate (nat ns) 0, eps = e,
                data_format = fmt, normalized_shape = ns\<rparr>)"

section \<open>Blocks: construction\<close>

text \<open>The members of an \<open>nn.Sequential\<close>.\<close>

datatype layer =
    LConv "real Conv2d"
  | LNorm "real nn_LayerNorm"
  | LLayerNorm LayerNorm
  | LAct "real arith"

record MSCABlock =
  conv_branches :: "real conv_module list"
  attn :: "layer list"
  channel_fusion :: "real Conv2d"
  norm :: LayerNorm
  pwconv1 :: "real Linear"
  act :: "real arith"
  pwconv2 :: "real Linear"
  gamma :: "real list option"
  drop_path :: drop_path_module

definition MSCABlock_init ::
  "weights \<Rightarrow> int \<Rightarrow> int list \<Rightarrow> real \<Rightarrow> real \<Rightarrow> conv_fn \<Rightarrow> error + MSCABlock" where
  "MSCABlock_init w dim' kernel_sizes drop_path' layer_scale_init_value conv_fn' =
     bnd (conv_fn_call conv_fn' (w ''conv_branches.0'') (dim' div 4) (dim' div 4) (3, 3) (1, 1) (dim' div 4)) (\<lambda>b0.
     bnd (conv_fn_call conv_fn' (w ''conv_branches.1'') (dim' div 4) (dim' div 4) (1, 11) (0, 5) (dim' div 4)) (\<lambda>b1.
     bnd (conv_fn_call conv_fn' (w ''conv_branches.2'') (dim' div 4) (dim' div 4) (11, 1) (5, 0) (dim' div 4)) (\<lambda>b2.
     if length kernel_sizes \<noteq> 3 then Inl (AssertionError KernelCount)
     else if \<not> (kernel_sizes ! 0 = 3 \<and> kernel_sizes ! 1 = 11 \<and> kernel_sizes ! 2 = 11)
       then Inl (AssertionError KernelTriple)
     else
     bnd (Conv2d_init (w ''attn.0'') dim' (dim' div 8) (1, 1) (1, 1) (0, 0) (1, 1) 1) (\<lambda>a0.
     bnd (nn_LayerNorm_init (w ''attn.1'') [dim' div 8, 1, 1] (1 / 100000)) (\<lambda>a1.
     bnd (Conv2d_init (w ''attn.3'') (dim' div 8) dim' (1, 1) (1, 1) (0, 0) (1, 1) 1) (\<lambda>a3.
     bnd (Conv2d_init (w ''channel_fusion'') (dim' * 2) dim' (1, 1) (1, 1) (0, 0) (1, 1) 1) (\<lambda>cf.
     bnd (LayerNorm_init dim' (1 / 1000000) ''channels_last'') (\<lambda>n.
     bnd (Linear_init (w ''pwconv1'') dim' (4 * dim')) (\<lambda>p1.
     bnd (Linear_init (w ''pwconv2'') (4 * dim') dim') (\<lambda>p2.
     Inr \<lparr>conv_branches = [b0, b1, b2],
          attn = [LConv a0, LNorm a1, LAct (w ''attn.2''), LConv a3, LAct (w ''attn.4'')],
          channel_fusion = cf, norm = n, pwconv1 = p1, act = w ''act'', pwconv2 = p2,
          gamma = (if layer_scale_init_value > 0
                   then Some (replicate (nat dim') layer_scale_init_value) else None),
          drop_path = (if drop_path' > 0 then DropPath drop_path' else Identity)\<rparr>))))))))))"

record Block =
  dwconv :: "real conv_module"
  norm :: LayerNorm
  pwconv1 :: "real Linear"
  act :: "real arith"
  pwconv2 :: "real Linear"
  gamma :: "real list option"
  drop_path :: drop_path_module


section \<open>ConvNeXt: construction\<close>

text \<open>\<open>torch.linspace(start, stop, steps)\<close>, read back as a list of numbers.\<close>

definition linspace :: "real \<Rightarrow> real \<Rightarrow> int \<Rightarrow> error + real list" where
  "linspace start stop steps =
     (if steps < 0 then Inl RuntimeError
      else Inr (map (\<lambda>k. if steps = 1 then start
                          else start + of_nat k * (stop - start) / of_int (steps - 1))
                  [0..<nat steps]))"

text \<open>An argument that is either one value for every stage or a list of them.\<close>

datatype 'a one_or_list = One 'a | Many "'a list"

definition as_list :: "nat \<Rightarrow> 'a one_or_list \<Rightarrow> 'a list" where
  "as_list n x = (case x of One v \<Rightarrow> replicate n v | Many vs \<Rightarrow> vs)"

text \<open>The parameter values of a whole model: of the stem convolution, of the convolution
  of each later downsampling layer, of every block by stage and position, of the final
  normalisation and of the head.\<close>

record params =
  stem_w :: "real arith"
  down_w :: "nat \<Rightarrow> real arith"
  block_w :: "nat \<Rightarrow> nat \<Rightarrow> weights"
  norm_w :: "real arith"
  head_w :: "real arith"

record ConvNeXt =
  num_stages :: nat
  num_classes :: int
  downsample_layers :: "layer list list"
  stages :: "MSCABlock list list"
  norm :: "real nn_LayerNorm"
  head :: "real Linear"

text \<open>Lines 214 to 219: the downsampling layer after stage \<open>i\<close>.\<close>

definition downsample_layer :: "params \<Rightarrow> int list \<Rightarrow> nat \<Rightarrow> error + layer list" where
  "downsample_layer p dims i =
     bnd (py_get dims (int i)) (\<lambda>di.
     bnd (LayerNorm_init di (1 / 1000000) ''channels_first'') (\<lambda>ln.
     bnd (py_get dims (int i + 1)) (\<lambda>dj.
     bnd (Conv2d_init (down_w p (i + 1)) di dj (2, 2) (2, 2) (0, 0) (1, 1) 1) (\<lambda>c.
     Inr [LLayerNorm ln, LConv c]))))"

text \<open>
  Lines 223 to 233: the loop over the stages with its block counter \<open>cur\<close>, and inside
  it the loop over the blocks of stage \<open>i\<close>. The call that builds a block is the
  parameter \<open>mk\<close>, given the stage, the position and the three arguments read from the
  lists: \<open>dims[i]\<close>, \<open>dp_rates[cur + j]\<close> and \<open>conv_fns[i]\<close>, in the order Python
  evaluates them. The constructor passes \<open>MSCABlock\<close> with its fixed arguments for it.
\<close>

definition stage_block ::
  "(nat \<Rightarrow> nat \<Rightarrow> int \<Rightarrow> real \<Rightarrow> conv_fn \<Rightarrow> error + 'b) \<Rightarrow> int list \<Rightarrow> real list
   \<Rightarrow> conv_fn list \<Rightarrow> int \<Rightarrow> nat \<Rightarrow> nat \<Rightarrow> error + 'b" where
  "stage_block mk dims dp_rates conv_fns cur i j =
     bnd (py_get dims (int i)) (\<lambda>d.
     bnd (py_get dp_rates (cur + int j)) (\<lambda>r.
     bnd (py_get conv_fns (int i)) (\<lambda>cf.
     mk i j d r cf)))"

fun build_stages ::
  "(nat \<Rightarrow> nat \<Rightarrow> int \<Rightarrow> real \<Rightarrow> conv_fn \<Rightarrow> error + 'b) \<Rightarrow> int list \<Rightarrow> int list \<Rightarrow> real list
   \<Rightarrow> conv_fn list \<Rightarrow> int \<Rightarrow> nat list \<Rightarrow> error + 'b list list" where
  "build_stages mk depths dims dp_rates conv_fns cur [] = Inr []"
| "build_stages mk depths dims dp_rates conv_fns cur (i # rest) =
     bnd (py_get depths (int i)) (\<lambda>di.
     bnd (mapM (stage_block mk dims dp_rates conv_fns cur i) [0..<nat di]) (\<lambda>stage.
     bnd (build_stages mk depths dims dp_rates conv_fns (cur + di) rest) (\<lambda>more.
     Inr (stage # more))))"

text \<open>
  \<open>ConvNeXt.__init__\<close>. The argument \<open>kernel_sizes\<close> is spread over the stages and
  then not used, as in the source. The weight initialisation
  (\<open>self.apply(self._init_weights)\<close>) and the scaling of the head by
  \<open>head_init_scale\<close> only change parameter values, which are abstract here.
\<close>

definition ConvNeXt_init ::
  "params \<Rightarrow> int \<Rightarrow> int \<Rightarrow> int list \<Rightarrow> int list \<Rightarrow> real \<Rightarrow> real \<Rightarrow> real
   \<Rightarrow> int one_or_list \<Rightarrow> conv_fn one_or_list \<Rightarrow> error + ConvNeXt" where
  "ConvNeXt_init p in_chans num_classes' depths dims drop_path_rate layer_scale_init_value
     head_init_scale kernel_sizes conv_fns =
     (let num_stages' = length depths;
          kernel_sizes' = as_list num_stages' kernel_sizes;
          conv_fns' = as_list num_stages' conv_fns
      in
      bnd (py_get dims 0) (\<lambda>d0.
      bnd (Conv2d_init (stem_w p) in_chans d0 (4, 4) (4, 4) (0, 0) (1, 1) 1) (\<lambda>sc.
      bnd (LayerNorm_init d0 (1 / 1000000) ''channels_first'') (\<lambda>sn.
      bnd (mapM (downsample_layer p dims) [0..<num_stages' - 1]) (\<lambda>downs.
      bnd (linspace 0 drop_path_rate (sum_list depths)) (\<lambda>dp_rates.
      bnd (build_stages
             (\<lambda>i j d r cf. MSCABlock_init (block_w p i j) d [3, 5, 7] r layer_scale_init_value cf)
             depths dims dp_rates conv_fns' 0 [0..<num_stages']) (\<lambda>sts.
      bnd (py_get dims (- 1)) (\<lambda>dl.
      bnd (nn_LayerNorm_init (norm_w p) [dl] (1 / 1000000)) (\<lambda>n.
      bnd (Linear_init (head_w p) dl num_classes') (\<lambda>h.
      Inr \<lparr>num_stages = num_stages', num_classes = num_classes',
           downsample_layers = [LConv sc, LLayerNorm sn] # downs, stages = sts,
           ConvNeXt.norm = n, head = h\<rparr>))))))))))"

section \<open>Named factories\<close>














section \<open>Sample parameters\<close>

text \<open>A parameter assignment under which every layer computes zeros; it serves to run the
  model on concrete inputs.\<close>

definition zero_arith :: "real arith" where
  "zero_arith = (\<lambda>_ _ _ _ _. 0)"

definition zero_params :: params where
  "zero_params = \<lparr>stem_w = zero_arith, down_w = (\<lambda>_. zero_arith),
     block_w = (\<lambda>_ _ _. zero_arith), norm_w = zero_arith, head_w = zero_arith\<rparr>"

section \<open>Tensor operations of the library\<close>

text \<open>\<open>x[:, start:start+len]\<close>: a run of channels (axis 1).\<close>

definition narrow1 :: "'a tensor \<Rightarrow> nat \<Rightarrow> nat \<Rightarrow> 'a tensor" where
  "narrow1 x start len = (case shape x of (n, c, h, w) \<Rightarrow>
     Tensor (n, len, h, w) (map (\<lambda>s. take len (drop start s)) (vals x)))"

text \<open>\<open>torch.split(x, (a, b), dim=1)\<close>: the sizes must be non-negative and add up to the
  number of channels.\<close>

definition torch_split :: "'a tensor \<Rightarrow> int \<times> int \<Rightarrow> error + 'a tensor \<times> 'a tensor" where
  "torch_split x sizes = (case shape x of (n, c, h, w) \<Rightarrow> (case sizes of (a, b) \<Rightarrow>
     if a < 0 \<or> b < 0 \<or> a + b \<noteq> int c then Inl RuntimeError
     else Inr (narrow1 x 0 (nat a), narrow1 x (nat a) (nat b))))"

text \<open>\<open>torch.chunk(x, chunks, dim=1)\<close>: pieces of \<open>ceil(c / chunks)\<close> channels, the last
  one shorter, and fewer pieces than asked when the channels run out.\<close>

definition torch_chunk :: "'a tensor \<Rightarrow> nat \<Rightarrow> 'a tensor list" where
  "torch_chunk x chunks = (case shape x of (n, c, h, w) \<Rightarrow>
     (let split_size = (c + chunks - 1) div chunks
      in if split_size = 0 then replicate chunks (narrow1 x 0 0)
         else map (\<lambda>k. narrow1 x (k * split_size) (min split_size (c - k * split_size)))
                [0..<(c + split_size - 1) div split_size]))"

text \<open>\<open>torch.cat(ts, dim=1)\<close>: every tensor must have the sizes of the first on the
  other axes, also a tensor with no channels.\<close>

definition torch_cat :: "'a tensor list \<Rightarrow> error + 'a tensor" where
  "torch_cat ts = (case ts of
       [] \<Rightarrow> Inl RuntimeError
     | t # rest \<Rightarrow> (case shape t of (n, c, h, w) \<Rightarrow>
         if list_all (\<lambda>u. case shape u of (n', c', h', w') \<Rightarrow> n' = n \<and> h' = h \<and> w' = w) rest
         then Inr (Tensor (n, sum_list (map (\<lambda>u. fst (snd (shape u))) ts), h, w)
                     (map (\<lambda>i. concat (map (\<lambda>u. vals u ! i) ts)) [0..<n]))
         else Inl RuntimeError))"

text \<open>Broadcasting of two four-axis tensors: on each axis the sizes are equal or one of
  them is 1.\<close>

definition bdim :: "nat \<Rightarrow> nat \<Rightarrow> nat option" where
  "bdim a b = (if a = b then Some a else if a = 1 then Some b else if b = 1 then Some a else None)"

definition bidx :: "nat \<Rightarrow> nat \<Rightarrow> nat" where
  "bidx size' i = (if size' = 1 then 0 else i)"

definition broadcast2 :: "('a \<Rightarrow> 'b \<Rightarrow> 'c) \<Rightarrow> 'a tensor \<Rightarrow> 'b tensor \<Rightarrow> error + 'c tensor" where
  "broadcast2 f x y = (case shape x of (a, b, c, d) \<Rightarrow> (case shape y of (a', b', c', d') \<Rightarrow>
     (case (bdim a a', bdim b b', bdim c c', bdim d d') of
        (Some n, Some m, Some k, Some l) \<Rightarrow>
          Inr (tab4 (n, m, k, l) (\<lambda>i j p q.
            f (at4 x (bidx a i) (bidx b j) (bidx c p) (bidx d q))
              (at4 y (bidx a' i) (bidx b' j) (bidx c' p) (bidx d' q))))
      | _ \<Rightarrow> Inl RuntimeError)))"

text \<open>An element-wise function.\<close>

definition tmap :: "('a \<Rightarrow> 'b) \<Rightarrow> 'a tensor \<Rightarrow> 'b tensor" where
  "tmap f x = tab4 (shape x) (\<lambda>i j p q. f (at4 x i j p q))"

text \<open>\<open>x.mean(1, keepdim=True)\<close>.\<close>

definition mean1 :: "real tensor \<Rightarrow> real tensor" where
  "mean1 x = (case shape x of (n, c, h, w) \<Rightarrow>
     tab4 (n, 1, h, w) (\<lambda>i j p q. sum_list (map (\<lambda>k. at4 x i k p q) [0..<c]) / of_nat c))"

text \<open>\<open>x.permute(0, 2, 3, 1)\<close> and \<open>x.permute(0, 3, 1, 2)\<close>.\<close>

definition permute_0231 :: "'a tensor \<Rightarrow> 'a tensor" where
  "permute_0231 x = (case shape x of (n, c, h, w) \<Rightarrow>
     tab4 (n, h, w, c) (\<lambda>i p q j. at4 x i j p q))"

definition permute_0312 :: "'a tensor \<Rightarrow> 'a tensor" where
  "permute_0312 x = (case shape x of (n, h, w, c) \<Rightarrow>
     tab4 (n, c, h, w) (\<lambda>i j p q. at4 x i p q j))"

text \<open>A vector of parameters as a four-axis tensor: along the last axis (as broadcasting
  places a one-axis tensor), and along the channel axis (\<open>v[:, None, None]\<close>).\<close>

definition last_vec :: "'a list \<Rightarrow> 'a tensor" where
  "last_vec v = Tensor (1, 1, 1, length v) [[[v]]]"

definition chan_vec :: "'a list \<Rightarrow> 'a tensor" where
  "chan_vec v = Tensor (1, length v, 1, 1) [map (\<lambda>e. [[e]]) v]"

section \<open>Library layers: forward\<close>

text \<open>\<open>Conv2d.forward\<close>: the input must have the layer's input channels and, padded,
  be no smaller than the dilated kernel; the output sizes are the library's formula.\<close>

definition conv_out :: "nat \<Rightarrow> nat \<Rightarrow> nat \<Rightarrow> nat \<Rightarrow> nat \<Rightarrow> nat" where
  "conv_out size' k s p d = (size' + 2 * p - d * (k - 1) - 1) div s + 1"

definition Conv2d_forward :: "'a Conv2d \<Rightarrow> 'a tensor \<Rightarrow> error + 'a tensor" where
  "Conv2d_forward m x = (case shape x of (n, c, h, w) \<Rightarrow>
     (case (kernel_size m, stride m, padding m, dilation m) of
        ((kh, kw), (sh, sw), (ph, pw), (dh, dw)) \<Rightarrow>
     if int c \<noteq> in_channels m then Inl RuntimeError
     else if sh = 0 \<or> sw = 0 then Inl RuntimeError
     else if h + 2 * ph < dh * (kh - 1) + 1 \<or> w + 2 * pw < dw * (kw - 1) + 1 then Inl RuntimeError
     else Inr (tab4 (n, nat (out_channels m), conv_out h kh sh ph dh, conv_out w kw sw pw dw)
                 (conv_arith m x))))"

text \<open>\<open>Linear.forward\<close> works on the last axis.\<close>

definition Linear_forward :: "'a Linear \<Rightarrow> 'a tensor \<Rightarrow> error + 'a tensor" where
  "Linear_forward m x = (case shape x of (a, b, c, d) \<Rightarrow>
     if int d \<noteq> in_features m then Inl RuntimeError
     else Inr (tab4 (a, b, c, nat (out_features m)) (lin_arith m x)))"

text \<open>\<open>nn.LayerNorm.forward\<close>: the trailing sizes of the input must be the normalised shape.\<close>

definition nn_LayerNorm_forward :: "'a nn_LayerNorm \<Rightarrow> 'a tensor \<Rightarrow> error + 'a tensor" where
  "nn_LayerNorm_forward m x = (case shape x of (a, b, c, d) \<Rightarrow>
     (let ns = nn_normalized_shape m
      in if length ns \<le> 4 \<and> map int (drop (4 - length ns) [a, b, c, d]) = ns
         then Inr (tab4 (a, b, c, d) (nn_arith m x))
         else Inl RuntimeError))"

text \<open>\<open>F.layer_norm(x, (C,), weight, bias, eps)\<close>: over the last axis, with the biased
  variance.\<close>

definition mean_last :: "real tensor \<Rightarrow> nat \<Rightarrow> nat \<Rightarrow> nat \<Rightarrow> real" where
  "mean_last x i j p = (case shape x of (a, b, c, d) \<Rightarrow>
     sum_list (map (\<lambda>q. at4 x i j p q) [0..<d]) / of_nat d)"

definition var_last :: "real tensor \<Rightarrow> nat \<Rightarrow> nat \<Rightarrow> nat \<Rightarrow> real" where
  "var_last x i j p = (case shape x of (a, b, c, d) \<Rightarrow>
     sum_list (map (\<lambda>q. (at4 x i j p q - mean_last x i j p)\<^sup>2) [0..<d]) / of_nat d)"

definition F_layer_norm ::
  "real tensor \<Rightarrow> int \<Rightarrow> real list \<Rightarrow> real list \<Rightarrow> real \<Rightarrow> error + real tensor" where
  "F_layer_norm x ns w b e = (case shape x of (a, b', c, d) \<Rightarrow>
     if int d \<noteq> ns \<or> length w \<noteq> d \<or> length b \<noteq> d then Inl RuntimeError
     else Inr (tab4 (a, b', c, d) (\<lambda>i j p q.
       (at4 x i j p q - mean_last x i j p) / sqrt (var_last x i j p + e) * w ! q + b ! q)))"

text \<open>\<open>DropPath.forward\<close> of timm: the identity unless the module is training with a
  positive rate; then sample \<open>i\<close> of the batch is kept when \<open>rnd i\<close> holds, scaled by the
  keep probability, and zeroed otherwise. The draws \<open>rnd\<close> are an input.\<close>

definition drop_path_forward ::
  "drop_path_module \<Rightarrow> bool \<Rightarrow> (nat \<Rightarrow> bool) \<Rightarrow> real tensor \<Rightarrow> real tensor" where
  "drop_path_forward m training rnd x = (case m of
       Identity \<Rightarrow> x
     | DropPath drop_prob \<Rightarrow>
         if drop_prob = 0 \<or> \<not> training then x
         else (let keep_prob = 1 - drop_prob
               in tab4 (shape x) (\<lambda>i j p q. at4 x i j p q *
                    ((if rnd i then 1 else 0) / (if keep_prob > 0 then keep_prob else 1)))))"

section \<open>Forward passes of the repository's modules\<close>

definition PartialConv2d_forward :: "'a PartialConv2d \<Rightarrow> 'a tensor \<Rightarrow> error + 'a tensor" where
  "PartialConv2d_forward m x =
     bnd (torch_split x (split_indices m)) (\<lambda>(identity, conv').
     bnd (Conv2d_forward (conv m) conv') (\<lambda>y.
     torch_cat [identity, y]))"

definition conv_module_forward :: "'a conv_module \<Rightarrow> 'a tensor \<Rightarrow> error + 'a tensor" where
  "conv_module_forward m x =
     (case m of Std c \<Rightarrow> Conv2d_forward c x | Partial c \<Rightarrow> PartialConv2d_forward c x)"

text \<open>
  \<open>LayerNorm.forward\<close>. In channel-first mode the four statements of the source are kept
  one by one. With any other \<open>data_format\<close> the method falls off its end and returns
  \<open>None\<close>, which no caller can use: that is the last branch.
\<close>

definition LayerNorm_forward :: "LayerNorm \<Rightarrow> real tensor \<Rightarrow> error + real tensor" where
  "LayerNorm_forward m x =
     (if data_format m = ''channels_last''
      then F_layer_norm x (normalized_shape m) (weight m) (bias m) (eps m)
      else if data_format m = ''channels_first''
      then (let u = mean1 x in
            bnd (broadcast2 (-) x u) (\<lambda>xu.
            let s = mean1 (tmap (\<lambda>v. v\<^sup>2) xu) in
            bnd (broadcast2 (/) xu (tmap sqrt (tmap (\<lambda>v. v + eps m) s))) (\<lambda>x'.
            bnd (broadcast2 (*) (chan_vec (weight m)) x') (\<lambda>wx.
            broadcast2 (+) wx (chan_vec (bias m))))))
      else Inl RuntimeError)"

definition layer_forward :: "layer \<Rightarrow> real tensor \<Rightarrow> error + real tensor" where
  "layer_forward l x = (case l of
       LConv c \<Rightarrow> Conv2d_forward c x
     | LNorm m \<Rightarrow> nn_LayerNorm_forward m x
     | LLayerNorm m \<Rightarrow> LayerNorm_forward m x
     | LAct ar \<Rightarrow> Inr (tab4 (shape x) (ar x)))"

text \<open>\<open>nn.Sequential.forward\<close>.\<close>

fun Sequential_forward :: "layer list \<Rightarrow> real tensor \<Rightarrow> error + real tensor" where
  "Sequential_forward [] x = Inr x"
| "Sequential_forward (l # ls) x = bnd (layer_forward l x) (Sequential_forward ls)"

text \<open>Multiplying by \<open>gamma\<close> when there is one (lines 128-129 and 169-170).\<close>

definition apply_gamma :: "real list option \<Rightarrow> real tensor \<Rightarrow> error + real tensor" where
  "apply_gamma g x = (case g of None \<Rightarrow> Inr x | Some v \<Rightarrow> broadcast2 (*) (last_vec v) x)"

definition MSCABlock_forward ::
  "MSCABlock \<Rightarrow> bool \<Rightarrow> (nat \<Rightarrow> bool) \<Rightarrow> real tensor \<Rightarrow> error + real tensor" where
  "MSCABlock_forward m training rnd x =
     (let identity = x;
          x_split = torch_chunk x 4
      in
      bnd (mapM (\<lambda>(i, branch). bnd (py_get x_split (int i)) (conv_module_forward branch))
             (zip [0..<length (conv_branches m)] (conv_branches m))) (\<lambda>conv_outs.
      bnd (py_get x_split 3) (\<lambda>x3.
      bnd (torch_cat (conv_outs @ [x3])) (\<lambda>fused.
      bnd (broadcast2 (+) identity fused) (\<lambda>fused.
      bnd (Sequential_forward (attn m) (mean1 fused)) (\<lambda>attn_map.
      bnd (broadcast2 (*) fused attn_map) (\<lambda>attended.
      bnd (torch_cat [identity, attended]) (\<lambda>fused_features.
      bnd (Conv2d_forward (channel_fusion m) fused_features) (\<lambda>fused_features.
      bnd (LayerNorm_forward (MSCABlock.norm m) (permute_0231 fused_features)) (\<lambda>x.
      bnd (Linear_forward (MSCABlock.pwconv1 m) x) (\<lambda>x.
      bnd (Inr (tab4 (shape x) (MSCABlock.act m x))) (\<lambda>x.
      bnd (Linear_forward (MSCABlock.pwconv2 m) x) (\<lambda>x.
      bnd (apply_gamma (MSCABlock.gamma m) x) (\<lambda>x.
      broadcast2 (+) fused_features
        (drop_path_forward (MSCABlock.drop_path m) training rnd (permute_0312 x))))))))))))))))"

definition Block_forward ::
  "Block \<Rightarrow> bool \<Rightarrow> (nat \<Rightarrow> bool) \<Rightarrow> real tensor \<Rightarrow> error + real tensor" where
  "Block_forward m training rnd x =
     (let input = x in
      bnd (conv_module_forward (dwconv m) x) (\<lambda>x.
      bnd (LayerNorm_forward (Block.norm m) (permute_0231 x)) (\<lambda>x.
      bnd (Linear_forward (Block.pwconv1 m) x) (\<lambda>x.
      bnd (Inr (tab4 (shape x) (Block.act m x))) (\<lambda>x.
      bnd (Linear_forward (Block.pwconv2 m) x) (\<lambda>x.
      bnd (apply_gamma (Block.gamma m) x) (\<lambda>x.
      broadcast2 (+) input
        (drop_path_forward (Block.drop_path m) training rnd (permute_0312 x)))))))))"

section \<open>The branch of each block before \<open>gamma\<close>\<close>



section \<open>The normalisation as the specification words it\<close>

text \<open>
  The mean and the biased variance over the channel axis at one batch index and spatial
  position, written as the sums the specification names. They are compared below with what
  \<open>LayerNorm.forward\<close> computes in channel-first mode.
\<close>

definition channel_mean :: "real tensor \<Rightarrow> nat \<Rightarrow> nat \<Rightarrow> nat \<Rightarrow> real" where
  "channel_mean x i p q = (case shape x of (n, c, h, w) \<Rightarrow>
     (\<Sum>j<c. at4 x i j p q) / of_nat c)"

definition channel_var :: "real tensor \<Rightarrow> nat \<Rightarrow> nat \<Rightarrow> nat \<Rightarrow> real" where
  "channel_var x i p q = (case shape x of (n, c, h, w) \<Rightarrow>
     (\<Sum>j<c. (at4 x i j p q - channel_mean x i p q)\<^sup>2) / of_nat c)"

section \<open>The error monad and arithmetic helpers\<close>

lemma bnd_simps [simp]: "bnd (Inl e) f = Inl e" "bnd (Inr x) f = f x"
  by (simp_all add: bnd_def)

lemma isl_bnd: "isl (bnd m f) = (isl m \<or> (\<exists>x. m = Inr x \<and> isl (f x)))"
  by (cases m) simp_all

lemma int_of_float_bounds:
  assumes "0 \<le> c" "0 < r" "r \<le> 1"
  shows "0 \<le> int_of_float (of_int c * r)" "int_of_float (of_int c * r) \<le> c"
proof -
  have nn: "0 \<le> of_int c * r" using assms by simp
  then show "0 \<le> int_of_float (of_int c * r)" by (simp only: int_of_float_def if_True zero_le_floor)
  have "of_int c * r \<le> of_int c" using assms by (simp add: mult_left_le)
  then have "\<lfloor>of_int c * r\<rfloor> \<le> c" by linarith
  then show "int_of_float (of_int c * r) \<le> c" using nn by (simp add: int_of_float_def)
qed

lemma conv_fn_call_ok:
  assumes "1 \<le> c" and "fn = Conv2d_fn \<or> (\<exists>r. fn = PartialConv2d_fn r \<and> 0 < r \<and> r \<le> 1)"
  shows "\<exists>m. conv_fn_call fn ar c c ks pd c = Inr m"
proof (cases fn)
  case Conv2d_fn
  then show ?thesis using assms by (simp add: conv_fn_call_def Conv2d_init_def)
next
  case (PartialConv2d_fn r)
  with assms have r: "0 < r" "r \<le> 1" by auto
  have c0: "0 \<le> c" using assms by simp
  note b = int_of_float_bounds[OF c0 r]
  show ?thesis using b PartialConv2d_fn
    by (auto simp: conv_fn_call_def PartialConv2d_init_def Conv2d_init_def Let_def)
qed

lemma three_elems:
  "length ks = 3 \<and> ks ! 0 = a \<and> ks ! 1 = b \<and> ks ! 2 = c \<Longrightarrow> ks = [a, b, c]"
  by (auto simp: length_Suc_conv numeral_3_eq_3)

lemma MSCABlock_init_triple:
  "MSCABlock_init w d ks dp l cf = Inr b \<Longrightarrow> ks = [3, 11, 11]"
proof -
  assume a: "MSCABlock_init w d ks dp l cf = Inr b"
  have "length ks = 3 \<and> ks ! 0 = 3 \<and> ks ! 1 = 11 \<and> ks ! 2 = 11"
    using a unfolding MSCABlock_init_def
    by (auto simp: bnd_def split: sum.splits if_splits)
  then show ?thesis by (rule three_elems)
qed

section \<open>Block construction\<close>

lemma Conv2d_init_ok:
  "0 < g \<Longrightarrow> i mod g = 0 \<Longrightarrow> out mod g = 0 \<Longrightarrow> 0 \<le> i \<Longrightarrow> 0 \<le> out \<Longrightarrow>
   \<exists>c. Conv2d_init ar i out ks st pd dl g = Inr c"
  by (simp add: Conv2d_init_def)

lemma MSCABlock_init_accepts:
  assumes d: "4 \<le> d" and cf: "cf = Conv2d_fn \<or> (\<exists>r. cf = PartialConv2d_fn r \<and> 0 < r \<and> r \<le> 1)"
  shows "\<exists>b. MSCABlock_init w d [3, 11, 11] dp l cf = Inr b"
proof -
  have c: "1 \<le> d div 4" using d by simp
  obtain b0 where b0: "conv_fn_call cf (w ''conv_branches.0'') (d div 4) (d div 4) (3, 3) (1, 1) (d div 4) = Inr b0"
    using conv_fn_call_ok[OF c cf] by blast
  obtain b1 where b1: "conv_fn_call cf (w ''conv_branches.1'') (d div 4) (d div 4) (1, 11) (0, 5) (d div 4) = Inr b1"
    using conv_fn_call_ok[OF c cf] by blast
  obtain b2 where b2: "conv_fn_call cf (w ''conv_branches.2'') (d div 4) (d div 4) (11, 1) (5, 0) (d div 4) = Inr b2"
    using conv_fn_call_ok[OF c cf] by blast
  have d0: "0 \<le> d" using d by simp
  have d8: "0 \<le> d div 8" using d by simp
  have "\<exists>c. Conv2d_init (w ''attn.0'') d (d div 8) (1, 1) (1, 1) (0, 0) (1, 1) 1 = Inr c" 
    by (rule Conv2d_init_ok) (use d0 d8 in simp_all)
  then obtain a0 where a0: "Conv2d_init (w ''attn.0'') d (d div 8) (1, 1) (1, 1) (0, 0) (1, 1) 1 = Inr a0" by blast
  obtain a1 where a1: "nn_LayerNorm_init (w ''attn.1'') [d div 8, 1, 1] (1 / 100000) = Inr a1"
    using d8 by (simp add: nn_LayerNorm_init_def)
  have "\<exists>c. Conv2d_init (w ''attn.3'') (d div 8) d (1, 1) (1, 1) (0, 0) (1, 1) 1 = Inr c" 
    by (rule Conv2d_init_ok) (use d0 d8 in simp_all)
  then obtain a3 where a3: "Conv2d_init (w ''attn.3'') (d div 8) d (1, 1) (1, 1) (0, 0) (1, 1) 1 = Inr a3" by blast
  have "\<exists>c. Conv2d_init (w ''channel_fusion'') (d * 2) d (1, 1) (1, 1) (0, 0) (1, 1) 1 = Inr c" 
    by (rule Conv2d_init_ok) (use d0 d8 in simp_all)
  then obtain fu where fu: "Conv2d_init (w ''channel_fusion'') (d * 2) d (1, 1) (1, 1) (0, 0) (1, 1) 1 = Inr fu" by blast
  obtain n where n: "LayerNorm_init d (1 / 1000000) ''channels_last'' = Inr n"
    using d0 by (simp add: LayerNorm_init_def)
  obtain p1 where p1: "Linear_init (w ''pwconv1'') d (4 * d) = Inr p1"
    using d0 by (simp add: Linear_init_def)
  obtain p2 where p2: "Linear_init (w ''pwconv2'') (4 * d) d = Inr p2"
    using d0 by (simp add: Linear_init_def)
  have len: "length [3, 11, 11 :: int] = 3" by simp
  show ?thesis
    unfolding MSCABlock_init_def b0 b1 b2 a0 a1 a3 fu n p1 p2 bnd_simps
    by simp
qed


lemma MSCABlock_init_rejects:
  assumes d: "4 \<le> d" and cf: "cf = Conv2d_fn \<or> (\<exists>r. cf = PartialConv2d_fn r \<and> 0 < r \<and> r \<le> 1)"
    and ks: "ks \<noteq> [3, 11, 11]"
  shows "\<exists>a. MSCABlock_init w d ks dp l cf = Inl (AssertionError a)"
proof -
  have c: "1 \<le> d div 4" using d by simp
  obtain b0 where b0: "conv_fn_call cf (w ''conv_branches.0'') (d div 4) (d div 4) (3, 3) (1, 1) (d div 4) = Inr b0"
    using conv_fn_call_ok[OF c cf] by blast
  obtain b1 where b1: "conv_fn_call cf (w ''conv_branches.1'') (d div 4) (d div 4) (1, 11) (0, 5) (d div 4) = Inr b1"
    using conv_fn_call_ok[OF c cf] by blast
  obtain b2 where b2: "conv_fn_call cf (w ''conv_branches.2'') (d div 4) (d div 4) (11, 1) (5, 0) (d div 4) = Inr b2"
    using conv_fn_call_ok[OF c cf] by blast
  have neg: "\<not> (length ks = 3 \<and> ks ! 0 = 3 \<and> ks ! 1 = 11 \<and> ks ! 2 = 11)"
  proof
    assume "length ks = 3 \<and> ks ! 0 = 3 \<and> ks ! 1 = 11 \<and> ks ! 2 = 11"
    then have "ks = [3, 11, 11]" by (rule three_elems)
    with ks show False by simp
  qed
  show ?thesis
  proof (cases "length ks = 3")
    case False
    then show ?thesis
      unfolding MSCABlock_init_def b0 b1 b2 bnd_simps by simp
  next
    case True
    with neg have "\<not> (ks ! 0 = 3 \<and> ks ! 1 = 11 \<and> ks ! 2 = 11)" by simp
    with True show ?thesis
      unfolding MSCABlock_init_def b0 b1 b2 bnd_simps by simp
  qed
qed

text \<open>
  C3. Constructing an \<open>MSCABlock\<close> with any kernel-size list other than \<open>[3, 11, 11]\<close>
  raises in the constructor, so before any forward computation. For a channel width of at
  least 4 and either convolution constructor the error is one of the two assertions, and
  the list \<open>[3, 11, 11]\<close> itself is accepted: the constructor returns a block.
\<close>

theorem MSCABlock_kernel_contract:
  "(ks \<noteq> [3, 11, 11] \<longrightarrow> isl (MSCABlock_init w d ks dp l cf)) \<and>
   (4 \<le> d \<and> (cf = Conv2d_fn \<or> (\<exists>r. cf = PartialConv2d_fn r \<and> 0 < r \<and> r \<le> 1)) \<longrightarrow>
      (ks \<noteq> [3, 11, 11] \<longrightarrow> (\<exists>a. MSCABlock_init w d ks dp l cf = Inl (AssertionError a))) \<and>
      (\<exists>b. MSCABlock_init w d [3, 11, 11] dp l cf = Inr b))"
proof (intro conjI impI)
  assume "ks \<noteq> [3, 11, 11]"
  then show "isl (MSCABlock_init w d ks dp l cf)"
    using MSCABlock_init_triple[of w d ks dp l cf] by (cases "MSCABlock_init w d ks dp l cf") auto
next
  assume a: "4 \<le> d \<and> (cf = Conv2d_fn \<or> (\<exists>r. cf = PartialConv2d_fn r \<and> 0 < r \<and> r \<le> 1))"
    and "ks \<noteq> [3, 11, 11]"
  then show "\<exists>a. MSCABlock_init w d ks dp l cf = Inl (AssertionError a)"
    using MSCABlock_init_rejects by blast
next
  assume a: "4 \<le> d \<and> (cf = Conv2d_fn \<or> (\<exists>r. cf = PartialConv2d_fn r \<and> 0 < r \<and> r \<le> 1))"
  then show "\<exists>b. MSCABlock_init w d [3, 11, 11] dp l cf = Inr b"
    using MSCABlock_init_accepts by blast
qed

theorem MSCABlock_kernel_contract_witness:
  "[3, 7, 11] \<noteq> [3, 11, 11 :: int] \<and> (4::int) \<le> 8 \<and>
   isl (MSCABlock_init (\<lambda>_ _ _ _ _ _. 0) 8 [3, 7, 11] 0 (1 / 1000000) Conv2d_fn) \<and>
   (\<exists>a. MSCABlock_init (\<lambda>_ _ _ _ _ _. 0) 8 [3, 7, 11] 0 (1 / 1000000) Conv2d_fn = Inl (AssertionError a)) \<and>
   (\<exists>b. MSCABlock_init (\<lambda>_ _ _ _ _ _. 0) 8 [3, 11, 11] 0 (1 / 1000000) Conv2d_fn = Inr b)"
  using MSCABlock_kernel_contract[of "[3, 7, 11]" "\<lambda>_ _ _ _ _ _. 0" 8 0 "1 / 1000000" Conv2d_fn]
  by simp

section \<open>Model construction\<close>

lemma isl_bndI: "(\<And>x. m = Inr x \<Longrightarrow> isl (f x)) \<Longrightarrow> isl (bnd m f)"
  by (cases m) simp_all

lemma bnd_eq_Inr: "bnd m f = Inr y \<longleftrightarrow> (\<exists>x. m = Inr x \<and> f x = Inr y)"
  by (cases m) simp_all

lemma isl_iff_no_Inr: "isl m \<longleftrightarrow> (\<forall>y. m \<noteq> Inr y)"
  by (cases m) simp_all

lemma MSCABlock_init_357: "isl (MSCABlock_init w d [3, 5, 7] r l cf)"
  using MSCABlock_init_triple[of w d "[3, 5, 7]" r l cf]
  by (cases "MSCABlock_init w d [3, 5, 7] r l cf") auto

lemma stage_block_fails:
  "(\<And>i j d r cf. isl (mk i j d r cf)) \<Longrightarrow> isl (stage_block mk dims dp cfs cur i j)"
  unfolding stage_block_def by (intro isl_bndI)

lemma mapM_fails: "xs \<noteq> [] \<Longrightarrow> (\<And>x. isl (f x)) \<Longrightarrow> isl (mapM f xs)"
  by (cases xs) (auto simp: isl_bnd)

lemma build_stages_fails:
  assumes mk: "\<And>i j d r cf. isl (mk i j d r cf)"
  shows "\<exists>i\<in>set ixs. i < length depths \<and> 0 < depths ! i \<Longrightarrow>
   isl (build_stages mk depths dims dp cfs cur ixs)"
proof (induction ixs arbitrary: cur)
  case Nil
  then show ?case by simp
next
  case (Cons i rest)
  show ?case
  proof (cases "i < length depths \<and> 0 < depths ! i")
    case True
    then have g: "py_get depths (int i) = Inr (depths ! i)" by (simp add: py_get_def)
    have ne: "[0..<nat (depths ! i)] \<noteq> []" using True by simp
    have "isl (mapM (stage_block mk dims dp cfs cur i) [0..<nat (depths ! i)])"
      by (rule mapM_fails[OF ne]) (rule stage_block_fails[OF mk])
    then show ?thesis by (simp add: g isl_bnd)
  next
    case False
    with Cons.prems have "\<exists>i\<in>set rest. i < length depths \<and> 0 < depths ! i" by auto
    then have "\<And>c. isl (build_stages mk depths dims dp cfs c rest)" by (rule Cons.IH)
    then show ?thesis by (auto simp: isl_iff_no_Inr bnd_eq_Inr)
  qed
qed

lemma ConvNeXt_init_fails:
  assumes "\<exists>i<length depths. 0 < depths ! i"
  shows "isl (ConvNeXt_init p in_chans nc depths dims rate l hs ks cfs)"
proof -
  have "\<exists>i\<in>set [0..<length depths]. i < length depths \<and> 0 < depths ! i"
    using assms by auto
  then have "\<And>dp c f. isl (build_stages
      (\<lambda>i j d r cf. MSCABlock_init (block_w p i j) d [3, 5, 7] r l cf)
      depths dims dp f c [0..<length depths])"
    by (rule build_stages_fails[rotated]) (rule MSCABlock_init_357)
  then show ?thesis
    unfolding ConvNeXt_init_def Let_def by (auto simp: isl_iff_no_Inr bnd_eq_Inr)
qed


lemma MSCABlock_init_assert:
  assumes d: "4 \<le> d" and cf: "cf = Conv2d_fn \<or> (\<exists>r. cf = PartialConv2d_fn r \<and> 0 < r \<and> r \<le> 1)"
    and len: "length ks = 3" and ks: "ks \<noteq> [3, 11, 11]"
  shows "MSCABlock_init w d ks dp l cf = Inl (AssertionError KernelTriple)"
proof -
  have c: "1 \<le> d div 4" using d by simp
  obtain b0 where b0: "conv_fn_call cf (w ''conv_branches.0'') (d div 4) (d div 4) (3, 3) (1, 1) (d div 4) = Inr b0"
    using conv_fn_call_ok[OF c cf] by blast
  obtain b1 where b1: "conv_fn_call cf (w ''conv_branches.1'') (d div 4) (d div 4) (1, 11) (0, 5) (d div 4) = Inr b1"
    using conv_fn_call_ok[OF c cf] by blast
  obtain b2 where b2: "conv_fn_call cf (w ''conv_branches.2'') (d div 4) (d div 4) (11, 1) (5, 0) (d div 4) = Inr b2"
    using conv_fn_call_ok[OF c cf] by blast
  have neg: "\<not> (ks ! 0 = 3 \<and> ks ! 1 = 11 \<and> ks ! 2 = 11)"
  proof
    assume "ks ! 0 = 3 \<and> ks ! 1 = 11 \<and> ks ! 2 = 11"
    with len have "length ks = 3 \<and> ks ! 0 = 3 \<and> ks ! 1 = 11 \<and> ks ! 2 = 11" by simp
    then have "ks = [3, 11, 11]" by (rule three_elems)
    with ks show False by simp
  qed
  with len show ?thesis
    unfolding MSCABlock_init_def b0 b1 b2 bnd_simps by simp
qed

lemma upt_4: "[0..<4] = [0, 1, 2, 3]" and upt_3: "[0..<3] = [0, 1, 2]"
  by (simp_all add: upt_rec)

lemma tiny_init_fails:
  assumes cf: "cf = Conv2d_fn \<or> (\<exists>r. cf = PartialConv2d_fn r \<and> 0 < r \<and> r \<le> 1)"
  shows "ConvNeXt_init p ic nc [3, 3, 9, 3] [96, 192, 384, 768] rate l hs ks (One cf)
     = (if ic < 0 then Inl RuntimeError else Inl (AssertionError KernelTriple))"
proof (cases "ic < 0")
  case True
  have d0: "py_get [96, 192, 384, 768 :: int] 0 = Inr 96" by (simp add: py_get_def)
  have sc: "Conv2d_init (stem_w p) ic 96 (4, 4) (4, 4) (0, 0) (1, 1) 1 = Inl RuntimeError"
    using True by (simp add: Conv2d_init_def)
  show ?thesis
    unfolding ConvNeXt_init_def Let_def d0 sc bnd_simps using True by simp
next
  case False
  let ?dims = "[96, 192, 384, 768 :: int]"
  let ?depths = "[3, 3, 9, 3 :: int]"
  have d0: "py_get ?dims 0 = Inr 96" by (simp add: py_get_def)
  obtain sc where sc: "Conv2d_init (stem_w p) ic 96 (4, 4) (4, 4) (0, 0) (1, 1) 1 = Inr sc"
    using False by (simp add: Conv2d_init_def)
  obtain sn where sn: "LayerNorm_init 96 (1 / 1000000) ''channels_first'' = Inr sn"
    by (simp add: LayerNorm_init_def)
  obtain downs where downs: "mapM (downsample_layer p ?dims) [0..<length ?depths - 1] = Inr downs"
    by (simp add: upt_3 downsample_layer_def py_get_def LayerNorm_init_def Conv2d_init_def)
  obtain dp where dp: "linspace 0 rate (sum_list ?depths) = Inr dp" and dp0: "py_get dp 0 = Inr 0"
    by (simp add: linspace_def py_get_def upt_rec)
  have cf0: "py_get (as_list (length ?depths) (One cf)) 0 = Inr cf"
    by (simp add: as_list_def py_get_def)
  let ?mk = "\<lambda>i j d r cf. MSCABlock_init (block_w p i j) d [3, 5, 7] r l cf"
  have blk: "stage_block ?mk ?dims dp (as_list (length ?depths) (One cf)) 0 0 0
      = Inl (AssertionError KernelTriple)"
    unfolding stage_block_def using d0 dp0 cf0
    by (simp add: MSCABlock_init_assert[OF _ cf])
  have st: "build_stages ?mk ?depths ?dims dp (as_list (length ?depths) (One cf)) 0
      [0..<length ?depths] = Inl (AssertionError KernelTriple)"
    using blk by (simp add: upt_4 py_get_def upt_3)
  show ?thesis
    unfolding ConvNeXt_init_def Let_def d0 sc sn downs dp st bnd_simps using False
    by simp
qed


text \<open>
  C1. The claim is that the constructor succeeds for every valid configuration with at
  least one block. It does not: every block is built with \<open>kernel_sizes=[3,5,7]\<close>
  (line 227), which the block's own assertion (line 71) rejects. So the constructor raises
  whenever some stage has a positive depth, and for the default configuration the error is
  that assertion.
\<close>

theorem ConvNeXt_init_with_blocks_raises:
  "((\<exists>i<length depths. 0 < depths ! i) \<longrightarrow>
      isl (ConvNeXt_init p in_chans nc depths dims rate l hs ks cfs)) \<and>
   ConvNeXt_init p 3 1000 [3, 3, 9, 3] [96, 192, 384, 768] 0 (1 / 1000000) 1 (One 7) (One Conv2d_fn)
     = Inl (AssertionError KernelTriple)"
proof
  show "(\<exists>i<length depths. 0 < depths ! i) \<longrightarrow>
      isl (ConvNeXt_init p in_chans nc depths dims rate l hs ks cfs)"
    using ConvNeXt_init_fails by blast
  show "ConvNeXt_init p 3 1000 [3, 3, 9, 3] [96, 192, 384, 768] 0 (1 / 1000000) 1 (One 7) (One Conv2d_fn)
     = Inl (AssertionError KernelTriple)"
    by (simp add: tiny_init_fails)
qed

theorem ConvNeXt_init_with_blocks_raises_witness:
  "(\<exists>i<length [1 :: int]. 0 < [1 :: int] ! i) \<and>
   isl (ConvNeXt_init zero_params 3 10 [1] [8] 0 (1 / 1000000) 1 (One 7) (One Conv2d_fn))"
  using ConvNeXt_init_with_blocks_raises[of "[1]" zero_params 3 10 "[8]" 0 "1 / 1000000" 1 "One 7" "One Conv2d_fn"]
  by simp




section \<open>Stochastic-depth rates\<close>









section \<open>The forward pass of the attention block\<close>

lemma shape_tab4 [simp]: "shape (tab4 s f) = s"
  by (cases s) (simp add: tab4_def)

lemma wf_tab4 [simp]: "wf (tab4 s f)"
  by (cases s) (simp add: tab4_def wf_def list_all_iff)

lemma at4_tab4:
  "i < a \<Longrightarrow> j < b \<Longrightarrow> p < c \<Longrightarrow> q < d \<Longrightarrow> at4 (tab4 (a, b, c, d) f) i j p q = f i j p q"
  by (simp add: tab4_def at4_def)

lemma shape_mean1: "shape x = (n, c, h, w) \<Longrightarrow> shape (mean1 x) = (n, 1, h, w)"
  by (simp add: mean1_def)

lemma Conv2d_forward_channels:
  "shape x = (n, c, h, w) \<Longrightarrow> int c \<noteq> in_channels m \<Longrightarrow> Conv2d_forward m x = Inl RuntimeError"
  by (simp add: Conv2d_forward_def split: prod.splits)

lemma Conv2d_init_fields:
  "Conv2d_init ar i out ks st pd dl g = Inr c \<Longrightarrow>
   in_channels c = i \<and> out_channels c = out \<and> kernel_size c = ks \<and> stride c = st \<and>
   padding c = pd \<and> dilation c = dl \<and> groups c = g \<and> conv_arith c = ar \<and> 0 \<le> i \<and> 0 \<le> out"
  by (auto simp: Conv2d_init_def split: if_splits)

lemma MSCABlock_init_attn:
  assumes "MSCABlock_init w d ks dp l cf = Inr b"
  shows "\<exists>a0 rest. attn b = LConv a0 # rest \<and> in_channels a0 = d"
proof -
  from assms obtain a0 rest where "Conv2d_init (w ''attn.0'') d (d div 8) (1, 1) (1, 1) (0, 0) (1, 1) 1 = Inr a0"
    and "attn b = LConv a0 # rest"
    unfolding MSCABlock_init_def
    by (auto simp: bnd_eq_Inr split: if_splits)
  then show ?thesis using Conv2d_init_fields by blast
qed

lemma Sequential_forward_attn_fails:
  assumes "attn b = LConv a0 # rest" and "in_channels a0 \<noteq> 1"
  shows "Sequential_forward (attn b) (mean1 t) = Inl RuntimeError"
proof -
  obtain n c h w where s: "shape t = (n, c, h, w)" by (cases "shape t") auto
  have "Conv2d_forward a0 (mean1 t) = Inl RuntimeError"
    by (rule Conv2d_forward_channels[OF shape_mean1[OF s]]) (use assms in simp)
  then show ?thesis by (simp add: assms(1) layer_forward_def)
qed

lemma MSCABlock_forward_fails:
  assumes "MSCABlock_init w d ks dp l cf = Inr b" and "d \<noteq> 1"
  shows "isl (MSCABlock_forward b training rnd x)"
proof -
  obtain a0 rest where a: "attn b = LConv a0 # rest" "in_channels a0 = d"
    using MSCABlock_init_attn[OF assms(1)] by blast
  have f: "Sequential_forward (attn b) (mean1 t) = Inl RuntimeError" for t
    by (rule Sequential_forward_attn_fails[OF a(1)]) (use a(2) assms(2) in simp)
  show ?thesis
    unfolding MSCABlock_forward_def Let_def
    by (auto simp: isl_iff_no_Inr bnd_eq_Inr f)
qed

lemma upt_small: "[0..<8] = [0,1,2,3,4,5,6,7]" "[0..<4] = [0,1,2,3]" "[0..<3] = [0,1,2]"
  "[0..<2] = [0,1]" "[0..<1] = [0]"
  by (simp_all add: upt_rec)

text \<open>
  C2. The claim is that the forward pass of an \<open>MSCABlock\<close> returns a tensor of the
  input's shape. It never returns: the gate \<open>attn\<close> is given the channel mean, which has one
  channel, while its first convolution was built for \<open>dim\<close> channels (line 76), so the
  library rejects the input. This holds for every block the constructor returns with
  \<open>dim\<close> other than 1, whatever the input is.
\<close>

theorem MSCABlock_forward_raises:
  assumes "MSCABlock_init w d ks dp l cf = Inr b" and "d \<noteq> 1"
  shows "Sequential_forward (attn b) (mean1 t) = Inl RuntimeError \<and>
         isl (MSCABlock_forward b training rnd x)"
proof -
  obtain a0 rest where a: "attn b = LConv a0 # rest" "in_channels a0 = d"
    using MSCABlock_init_attn[OF assms(1)] by blast
  have "Sequential_forward (attn b) (mean1 t) = Inl RuntimeError"
    by (rule Sequential_forward_attn_fails[OF a(1)]) (use a(2) assms(2) in simp)
  then show ?thesis using MSCABlock_forward_fails[OF assms] by simp
qed

theorem MSCABlock_forward_raises_witness:
  "\<exists>b. MSCABlock_init (\<lambda>_. zero_arith) 8 [3, 11, 11] 0 (1 / 1000000) Conv2d_fn = Inr b \<and>
     (8 :: int) \<noteq> 1 \<and>
     isl (MSCABlock_forward b False (\<lambda>_. True) (tab4 (1, 8, 1, 1) (\<lambda>i j p q. real j))) \<and>
     MSCABlock_forward b False (\<lambda>_. True) (tab4 (1, 8, 1, 1) (\<lambda>i j p q. real j)) = Inl RuntimeError"
proof -
  obtain b where b: "MSCABlock_init (\<lambda>_. zero_arith) 8 [3, 11, 11] 0 (1 / 1000000) Conv2d_fn = Inr b"
    using MSCABlock_init_accepts[of 8 Conv2d_fn "\<lambda>_. zero_arith" 0 "1 / 1000000"] by auto
  have e: "MSCABlock_forward b False (\<lambda>_. True) (tab4 (1, 8, 1, 1) (\<lambda>i j p q. real j)) = Inl RuntimeError"
    using b
    by (auto simp add: MSCABlock_init_def conv_fn_call_def Conv2d_init_def nn_LayerNorm_init_def
      LayerNorm_init_def Linear_init_def MSCABlock_forward_def torch_chunk_def narrow1_def tab4_def
      py_get_def conv_module_forward_def Conv2d_forward_def torch_cat_def broadcast2_def bdim_def
      bidx_def at4_def mean1_def layer_forward_def zero_arith_def conv_out_def upt_small Let_def)
  show ?thesis
    using b e MSCABlock_forward_raises[OF b, of "tab4 (1, 8, 1, 1) (\<lambda>i j p q. real j)" False "\<lambda>_. True"
        "tab4 (1, 8, 1, 1) (\<lambda>i j p q. real j)"]
    by auto
qed

section \<open>Partial convolution\<close>

lemma wf_rows: "wf x \<Longrightarrow> shape x = (n, c, h, w) \<Longrightarrow> length (vals x) = n \<and> (\<forall>s\<in>set (vals x). length s = c)"
  by (auto simp: wf_def list_all_iff)

lemma shape_narrow1: "shape x = (n, c, h, w) \<Longrightarrow> shape (narrow1 x s l) = (n, l, h, w)"
  by (simp add: narrow1_def)

lemma vals_narrow1: "vals (narrow1 x s l) = map (\<lambda>r. take l (drop s r)) (vals x)"
  by (cases "shape x") (simp add: narrow1_def)

lemma narrow1_all: "wf x \<Longrightarrow> shape x = (n, c, h, w) \<Longrightarrow> narrow1 x 0 c = x"
proof -
  assume a: "wf x" "shape x = (n, c, h, w)"
  have "map (\<lambda>r. take c (drop 0 r)) (vals x) = vals x"
    using wf_rows[OF a] by (simp add: map_idI)
  then show ?thesis using a(2) by (cases x) (simp add: narrow1_def)
qed

lemma torch_split_narrow:
  "shape x = (n, c, h, w) \<Longrightarrow> 0 \<le> a \<Longrightarrow> 0 \<le> b \<Longrightarrow> a + b = int c \<Longrightarrow>
   torch_split x (a, b) = Inr (narrow1 x 0 (nat a), narrow1 x (nat a) (nat b))"
  by (simp add: torch_split_def)

lemma torch_split_Inr:
  "torch_split x (a, b) = Inr (i, t) \<Longrightarrow> shape x = (n, c, h, w) \<Longrightarrow>
   0 \<le> a \<and> 0 \<le> b \<and> a + b = int c \<and> i = narrow1 x 0 (nat a) \<and> t = narrow1 x (nat a) (nat b)"
  by (auto simp: torch_split_def split: if_splits)

lemma torch_cat2:
  assumes "shape i = (n, a, h, w)" and "shape z = (n', c', h', w')"
  shows "torch_cat [i, z] =
    (if n' = n \<and> h' = h \<and> w' = w
     then Inr (Tensor (n, a + c', h, w) (map (\<lambda>k. vals i ! k @ vals z ! k) [0..<n]))
     else Inl RuntimeError)"
  using assms by (simp add: torch_cat_def)

lemma narrow1_cat_left:
  assumes "length vi = n" and "\<forall>s\<in>set vi. length s = a"
  shows "narrow1 (Tensor (n, a + c', h, w) (map (\<lambda>k. vi ! k @ vz ! k) [0..<n])) 0 a = Tensor (n, a, h, w) vi"
proof -
  have "map (\<lambda>k. take a (vi ! k @ vz ! k)) [0..<n] = map (\<lambda>k. vi ! k) [0..<n]"
    using assms by (intro map_cong refl) simp
  also have "\<dots> = vi" using assms(1) map_nth[of vi] by simp
  finally show ?thesis by (simp add: narrow1_def comp_def)
qed

lemma narrow1_cat_right:
  assumes "length vi = n" and "\<forall>s\<in>set vi. length s = a"
    and "length vz = n" and "\<forall>s\<in>set vz. length s = c'"
  shows "narrow1 (Tensor (n, a + c', h, w) (map (\<lambda>k. vi ! k @ vz ! k) [0..<n])) a c' = Tensor (n, c', h, w) vz"
proof -
  have "map (\<lambda>k. take c' (drop a (vi ! k @ vz ! k))) [0..<n] = map (\<lambda>k. vz ! k) [0..<n]"
    using assms by (intro map_cong refl) simp
  also have "\<dots> = vz" using assms(3) map_nth[of vz] by simp
  finally show ?thesis by (simp add: narrow1_def comp_def)
qed

lemma narrow1_rows:
  assumes "wf x" "shape x = (n, c, h, w)" "s + l \<le> c"
  shows "length (vals (narrow1 x s l)) = n" "\<forall>r\<in>set (vals (narrow1 x s l)). length r = l"
  using wf_rows[OF assms(1,2)] assms(3) by (auto simp: vals_narrow1)

lemma Conv2d_forward_Inr:
  "Conv2d_forward m x = Inr z \<Longrightarrow> wf z \<and> fst (snd (shape z)) = nat (out_channels m)"
  by (auto simp: Conv2d_forward_def split: prod.splits if_splits)

lemma tensor_collapse: "Tensor (shape z) (vals z) = z"
  by (cases z) simp

lemma PartialConv2d_init_fields:
  assumes "PartialConv2d_init ar C C' ks r st pd dl g = Inr m"
  shows "split_indices m = (C - int_of_float (of_int C * r), int_of_float (of_int C * r))"
    and "out_channels (conv m) = int_of_float (of_int C' * r)"
    and "in_channels (conv m) = int_of_float (of_int C * r)"
  using assms unfolding PartialConv2d_init_def Let_def
  by (auto simp: bnd_eq_Inr dest: Conv2d_init_fields)

lemma PartialConv2d_forward_result:
  assumes si: "split_indices m = (a, k)"
    and x: "wf x" "shape x = (n, c, h, w)"
    and fw: "PartialConv2d_forward m x = Inr y"
  shows "0 \<le> a \<and> 0 \<le> k \<and> a + k = int c \<and>
    narrow1 y 0 (nat a) = narrow1 x 0 (nat a) \<and>
    Conv2d_forward (conv m) (narrow1 x (nat a) (nat k)) = Inr (narrow1 y (nat a) (nat (out_channels (conv m)))) \<and>
    shape y = (n, nat a + nat (out_channels (conv m)), h, w)"
proof -
  from fw obtain i t z where sp: "torch_split x (a, k) = Inr (i, t)"
    and cv: "Conv2d_forward (conv m) t = Inr z" and ct: "torch_cat [i, z] = Inr y"
    unfolding PartialConv2d_forward_def si by (auto simp: bnd_eq_Inr)
  from torch_split_Inr[OF sp x(2)] have ak: "0 \<le> a" "0 \<le> k" "a + k = int c"
    and i: "i = narrow1 x 0 (nat a)" and t: "t = narrow1 x (nat a) (nat k)" by simp_all
  have le: "0 + nat a \<le> c" using ak by linarith
  have si': "shape i = (n, nat a, h, w)" unfolding i by (rule shape_narrow1[OF x(2)])
  have ri: "length (vals i) = n" "\<forall>r\<in>set (vals i). length r = nat a"
    unfolding i using narrow1_rows[OF x le] by simp_all
  obtain n' c' h' w' where sz: "shape z = (n', c', h', w')" by (cases "shape z") auto
  from Conv2d_forward_Inr[OF cv] sz have wz: "wf z" and c': "c' = nat (out_channels (conv m))" by simp_all
  from ct have eq: "n' = n" "h' = h" "w' = w"
    and y: "y = Tensor (n, nat a + c', h, w) (map (\<lambda>k. vals i ! k @ vals z ! k) [0..<n])"
    unfolding torch_cat2[OF si' sz] by (auto split: if_splits)
  have rz: "length (vals z) = n" "\<forall>r\<in>set (vals z). length r = c'"
    using wf_rows[OF wz sz] eq by simp_all
  have l: "narrow1 y 0 (nat a) = i"
    unfolding y narrow1_cat_left[OF ri] using si' by (metis tensor_collapse)
  have r: "narrow1 y (nat a) c' = z"
    unfolding y narrow1_cat_right[OF ri rz] using sz eq by (metis tensor_collapse)
  show ?thesis using ak l r cv y c' i t by simp
qed


text \<open>The forward pass returns when the convolution of the trailing channels does and keeps
  the batch and spatial sizes.\<close>

lemma PartialConv2d_forward_returns:
  assumes "split_indices m = (a, k)" and "0 \<le> a" "0 \<le> k" "a + k = int c"
    and "shape x = (n, c, h, w)"
    and "Conv2d_forward (conv m) (narrow1 x (nat a) (nat k)) = Inr z"
    and "shape z = (n, c', h, w)"
  shows "\<exists>y. PartialConv2d_forward m x = Inr y"
proof -
  have sp: "torch_split x (a, k) = Inr (narrow1 x 0 (nat a), narrow1 x (nat a) (nat k))"
    by (rule torch_split_narrow[OF assms(5,2,3,4)])
  have si: "shape (narrow1 x 0 (nat a)) = (n, nat a, h, w)"
    by (rule shape_narrow1[OF assms(5)])
  show ?thesis
    by (simp add: PartialConv2d_forward_def assms(1) sp assms(6) torch_cat2[OF si assms(7)])
qed

text \<open>
  C4. When \<open>PartialConv2d.forward\<close> returns, the leading \<open>C - int(C*r)\<close> channels of its
  output are those of the input, element for element, the channels after them are the
  convolution of the trailing \<open>int(C*r)\<close> input channels, and the output has
  \<open>C - int(C*r) + int(C_out*r)\<close> channels on the input's batch and spatial sizes: the
  input's shape when \<open>in_channels = out_channels\<close>.
\<close>

theorem PartialConv2d_forward_identity_then_conv:
  assumes "PartialConv2d_init ar C C' ks r st pd dl g = Inr m"
    and "k = int_of_float (of_int C * r)" and "k' = int_of_float (of_int C' * r)"
    and "wf x" and "shape x = (n, nat C, h, w)" and "0 \<le> C"
    and "PartialConv2d_forward m x = Inr y"
  shows "0 \<le> k \<and> k \<le> C \<and>
    narrow1 y 0 (nat (C - k)) = narrow1 x 0 (nat (C - k)) \<and>
    Conv2d_forward (conv m) (narrow1 x (nat (C - k)) (nat k)) = Inr (narrow1 y (nat (C - k)) (nat k')) \<and>
    shape y = (n, nat (C - k) + nat k', h, w) \<and>
    (C' = C \<longrightarrow> shape y = shape x)"
proof -
  note f = PartialConv2d_init_fields[OF assms(1)]
  have si: "split_indices m = (C - k, k)" using f(1) assms(2) by simp
  have oc: "out_channels (conv m) = k'" using f(2) assms(3) by simp
  note res = PartialConv2d_forward_result[OF si assms(4,5,7)]
  from res have b: "0 \<le> C - k" "0 \<le> k" by simp_all
  have "C' = C \<Longrightarrow> nat (C - k) + nat k' = nat C"
    using b assms(2,3) by simp
  with res b show ?thesis unfolding oc using assms(5) by simp
qed

theorem PartialConv2d_forward_identity_then_conv_witness:
  "\<exists>m. PartialConv2d_init zero_arith 4 4 (3, 3) (1 / 2) (1, 1) (1, 1) (1, 1) 4 = Inr m \<and>
     wf (tab4 (1, 4, 2, 2) (\<lambda>i j p q. real (j + 1))) \<and>
     PartialConv2d_forward m (tab4 (1, 4, 2, 2) (\<lambda>i j p q. real (j + 1))) =
       Inr (Tensor (1, 4, 2, 2) [[[[1, 1], [1, 1]], [[2, 2], [2, 2]], [[0, 0], [0, 0]], [[0, 0], [0, 0]]]]) \<and>
     narrow1 (Tensor (1, 4, 2, 2) [[[[1, 1], [1, 1]], [[2, 2], [2, 2]], [[0, 0], [0, 0]], [[0, 0], [0, 0]]]]) 0 2 =
       narrow1 (tab4 (1, 4, 2, 2) (\<lambda>i j p q. real (j + 1))) 0 2 \<and>
     shape (Tensor (1, 4, 2, 2) [[[[1 :: real, 1], [1, 1]], [[2, 2], [2, 2]], [[0, 0], [0, 0]], [[0, 0], [0, 0]]]]) =
       shape (tab4 (1, 4, 2, 2) (\<lambda>i j p q. real (j + 1)))"
proof -
  let ?x = "tab4 (1, 4, 2, 2) (\<lambda>i j p q. real (j + 1))"
  let ?y = "Tensor (1, 4, 2, 2) [[[[1 :: real, 1], [1, 1]], [[2, 2], [2, 2]], [[0, 0], [0, 0]], [[0, 0], [0, 0]]]]"
  have k: "int_of_float (of_int 4 * (1 / 2)) = 2" by (simp add: int_of_float_def)
  obtain m where m: "PartialConv2d_init zero_arith 4 4 (3, 3) (1 / 2) (1, 1) (1, 1) (1, 1) 4 = Inr m"
    by (simp add: PartialConv2d_init_def Conv2d_init_def int_of_float_def)
  have fw: "PartialConv2d_forward m ?x = Inr ?y"
    using m
    by (auto simp add: PartialConv2d_init_def Conv2d_init_def int_of_float_def PartialConv2d_forward_def
        torch_split_def narrow1_def tab4_def Conv2d_forward_def torch_cat_def conv_out_def zero_arith_def
        upt_small)
  have sx: "shape ?x = (1, nat 4, 2, 2)" by simp
  note t = PartialConv2d_forward_identity_then_conv[OF m k[symmetric] k[symmetric] wf_tab4 sx _ fw]
  show ?thesis using m fw t by simp
qed

section \<open>Partial convolution with ratio 1\<close>

lemma int_of_float_of_int [simp]: "int_of_float (of_int i) = i"
  by (simp add: int_of_float_def)

lemma PartialConv2d_init_ratio_one:
  assumes "Conv2d_init ar C C' ks st pd dl g = Inr c0"
  shows "PartialConv2d_init ar C C' ks 1 st pd dl g = Inr \<lparr>conv = c0, split_indices = (0, C)\<rparr>"
proof -
  have "0 < g" using assms by (auto simp: Conv2d_init_def split: if_splits)
  then show ?thesis using assms by (simp add: PartialConv2d_init_def)
qed

lemma torch_cat_empty_left:
  assumes z: "wf z" "shape z = (n, c', h', w')" and x: "shape x = (n, c, h, w)" and wx: "wf x"
  shows "torch_cat [narrow1 x 0 0, z] = (if h' = h \<and> w' = w then Inr z else Inl RuntimeError)"
proof -
  have si: "shape (narrow1 x 0 0) = (n, 0, h, w)" by (rule shape_narrow1[OF x])
  have len: "length (vals z) = n" using wf_rows[OF z] by simp
  have "map (\<lambda>k. vals (narrow1 x 0 0) ! k @ vals z ! k) [0..<n] = map (\<lambda>k. vals z ! k) [0..<n]"
    using wf_rows[OF wx x] by (intro map_cong refl) (simp add: vals_narrow1)
  also have "\<dots> = vals z" using len map_nth[of "vals z"] by simp
  finally have v: "map (\<lambda>k. vals (narrow1 x 0 0) ! k @ vals z ! k) [0..<n] = vals z" .
  have "Tensor (n, c', h', w') (vals z) = z" using z(2) by (metis tensor_collapse)
  then show ?thesis unfolding torch_cat2[OF si z(2)] v by auto
qed

lemma Conv2d_forward_batch:
  "Conv2d_forward m x = Inr z \<Longrightarrow> fst (shape z) = fst (shape x)"
  by (auto simp: Conv2d_forward_def split: prod.splits if_splits)

lemma PartialConv2d_forward_ratio_one:
  assumes c0: "in_channels c0 = C" and x: "wf x" "shape x = (n, c, h, w)"
  shows "PartialConv2d_forward \<lparr>conv = c0, split_indices = (0, C)\<rparr> x =
    (case Conv2d_forward c0 x of
       Inl e \<Rightarrow> Inl e
     | Inr z \<Rightarrow> (case shape z of (n', c', h', w') \<Rightarrow>
         if h' = h \<and> w' = w then Inr z else Inl RuntimeError))"
proof (cases "int c = C")
  case False
  have a: "Conv2d_forward c0 x = Inl RuntimeError"
    by (rule Conv2d_forward_channels[OF x(2)]) (use False c0 in simp)
  have b: "torch_split x (0, C) = Inl RuntimeError"
    using False x(2) by (simp add: torch_split_def)
  show ?thesis by (simp add: PartialConv2d_forward_def a b)
next
  case True
  then have C: "0 \<le> C" "nat C = c" by simp_all
  have sp: "torch_split x (0, C) = Inr (narrow1 x 0 0, x)"
    using torch_split_narrow[OF x(2), of 0 C] True C narrow1_all[OF x] by simp
  show ?thesis
  proof (cases "Conv2d_forward c0 x")
    case (Inl e)
    then show ?thesis by (simp add: PartialConv2d_forward_def sp)
  next
    case (Inr z)
    obtain n' c' h' w' where sz: "shape z = (n', c', h', w')" by (cases "shape z") auto
    have wz: "wf z" using Conv2d_forward_Inr[OF Inr] by simp
    have "n' = n" using Conv2d_forward_batch[OF Inr] sz x(2) by simp
    with sz have sz': "shape z = (n, c', h', w')" by simp
    show ?thesis
      by (simp add: PartialConv2d_forward_def sp Inr torch_cat_empty_left[OF wz sz' x(2) x(1)] sz')
  qed
qed


lemma Conv2d_forward_same_padding:
  assumes "Conv2d_forward m x = Inr z" and "shape x = (n, c, h, w)"
    and "stride m = (1, 1)"
    and "2 * fst (padding m) = fst (dilation m) * (fst (kernel_size m) - 1)"
    and "2 * snd (padding m) = snd (dilation m) * (snd (kernel_size m) - 1)"
  shows "shape z = (n, nat (out_channels m), h, w)"
  using assms
  by (cases "kernel_size m"; cases "padding m"; cases "dilation m")
     (auto simp: Conv2d_forward_def conv_out_def split: if_splits)

text \<open>
  C5, for inputs whose height and width the convolution keeps. With ratio 1.0 and the
  kernel parameters of a standard convolution,
  \<open>PartialConv2d.forward\<close> gives what that convolution gives on every input on which the
  convolution raises or keeps the input's height and width; this is so with stride 1 and a
  padding of half the dilated kernel extent, the only way the repository uses it. On an
  input whose height or width the convolution changes, \<open>PartialConv2d.forward\<close> raises:
  the empty identity slice still has the input's height and width, and the concatenation
  rejects it.
\<close>

theorem PartialConv2d_ratio_one_equals_conv:
  assumes "Conv2d_init ar C C' ks st pd dl g = Inr c0" and "wf x" and "shape x = (n, c, h, w)"
  shows "\<exists>m. PartialConv2d_init ar C C' ks 1 st pd dl g = Inr m \<and>
    PartialConv2d_forward m x =
      (case Conv2d_forward c0 x of
         Inl e \<Rightarrow> Inl e
       | Inr z \<Rightarrow> (case shape z of (n', c', h', w') \<Rightarrow>
           if h' = h \<and> w' = w then Inr z else Inl RuntimeError)) \<and>
    (st = (1, 1) \<and> 2 * fst pd = fst dl * (fst ks - 1) \<and> 2 * snd pd = snd dl * (snd ks - 1) \<longrightarrow>
       PartialConv2d_forward m x = Conv2d_forward c0 x)"
proof -
  let ?m = "\<lparr>conv = c0, split_indices = (0, C)\<rparr>"
  note f = Conv2d_init_fields[OF assms(1)]
  have i: "PartialConv2d_init ar C C' ks 1 st pd dl g = Inr ?m"
    by (rule PartialConv2d_init_ratio_one[OF assms(1)])
  have ch: "PartialConv2d_forward ?m x =
      (case Conv2d_forward c0 x of
         Inl e \<Rightarrow> Inl e
       | Inr z \<Rightarrow> (case shape z of (n', c', h', w') \<Rightarrow>
           if h' = h \<and> w' = w then Inr z else Inl RuntimeError))"
    by (rule PartialConv2d_forward_ratio_one[OF _ assms(2,3)]) (use f in simp)
  have same: "PartialConv2d_forward ?m x = Conv2d_forward c0 x"
    if "st = (1, 1) \<and> 2 * fst pd = fst dl * (fst ks - 1) \<and> 2 * snd pd = snd dl * (snd ks - 1)"
  proof (cases "Conv2d_forward c0 x")
    case (Inl e)
    then show ?thesis by (simp add: ch)
  next
    case (Inr z)
    have "shape z = (n, nat (out_channels c0), h, w)"
      by (rule Conv2d_forward_same_padding[OF Inr assms(3)]) (use f that in simp_all)
    then show ?thesis by (simp add: ch Inr)
  qed
  show ?thesis using i ch same by blast
qed

theorem PartialConv2d_ratio_one_equals_conv_witness:
  "Conv2d_init zero_arith 1 1 (3, 3) (1, 1) (1, 1) (1, 1) 1 =
     Inr \<lparr>in_channels = 1, out_channels = 1, kernel_size = (3, 3), stride = (1, 1),
          padding = (1, 1), dilation = (1, 1), groups = 1, conv_arith = zero_arith\<rparr> \<and>
   wf (Tensor (1, 1, 2, 2) [[[[1, 2], [3, 4 :: real]]]]) \<and>
   (\<exists>m. PartialConv2d_init zero_arith 1 1 (3, 3) 1 (1, 1) (1, 1) (1, 1) 1 = Inr m \<and>
     PartialConv2d_forward m (Tensor (1, 1, 2, 2) [[[[1, 2], [3, 4]]]]) =
     Conv2d_forward \<lparr>in_channels = 1, out_channels = 1, kernel_size = (3, 3), stride = (1, 1),
          padding = (1, 1), dilation = (1, 1), groups = 1, conv_arith = zero_arith\<rparr>
       (Tensor (1, 1, 2, 2) [[[[1, 2], [3, 4]]]]) \<and>
     PartialConv2d_forward m (Tensor (1, 1, 2, 2) [[[[1, 2], [3, 4]]]]) =
       Inr (Tensor (1, 1, 2, 2) [[[[0, 0], [0, 0]]]]))"
proof -
  let ?c = "\<lparr>in_channels = 1, out_channels = 1, kernel_size = (3, 3), stride = (1, 1),
          padding = (1, 1), dilation = (1, 1), groups = 1, conv_arith = zero_arith\<rparr>"
  let ?x = "Tensor (1, 1, 2, 2) [[[[1, 2], [3, 4 :: real]]]]"
  have c: "Conv2d_init zero_arith 1 1 (3, 3) (1, 1) (1, 1) (1, 1) 1 = Inr ?c"
    by (simp add: Conv2d_init_def)
  have w: "wf ?x" by (simp add: wf_def)
  have s: "shape ?x = (1, 1, 2, 2)" by simp
  have v: "Conv2d_forward ?c ?x = Inr (Tensor (1, 1, 2, 2) [[[[0, 0], [0, 0]]]])"
    by (simp add: Conv2d_forward_def conv_out_def tab4_def zero_arith_def upt_small)
  show ?thesis
    using c w v PartialConv2d_ratio_one_equals_conv[OF c w s]
    by auto
qed

text \<open>
  C5 does not hold for every kernel: take a 3 by 3 kernel without padding on a 3 by 3
  input. The standard
  convolution returns a 1 by 1 map; the partial convolution with ratio 1.0 raises.
\<close>

theorem PartialConv2d_ratio_one_counterexample:
  "Conv2d_init zero_arith 1 1 (3, 3) (1, 1) (0, 0) (1, 1) 1 =
     Inr \<lparr>in_channels = 1, out_channels = 1, kernel_size = (3, 3), stride = (1, 1),
          padding = (0, 0), dilation = (1, 1), groups = 1, conv_arith = zero_arith\<rparr> \<and>
   PartialConv2d_init zero_arith 1 1 (3, 3) 1 (1, 1) (0, 0) (1, 1) 1 =
     Inr \<lparr>conv = \<lparr>in_channels = 1, out_channels = 1, kernel_size = (3, 3), stride = (1, 1),
          padding = (0, 0), dilation = (1, 1), groups = 1, conv_arith = zero_arith\<rparr>,
          split_indices = (0, 1)\<rparr> \<and>
   Conv2d_forward \<lparr>in_channels = 1, out_channels = 1, kernel_size = (3, 3), stride = (1, 1),
          padding = (0, 0), dilation = (1, 1), groups = 1, conv_arith = zero_arith\<rparr>
       (Tensor (1, 1, 3, 3) [[[[1, 2, 3], [4, 5, 6], [7, 8, 9]]]]) =
     Inr (Tensor (1, 1, 1, 1) [[[[0]]]]) \<and>
   PartialConv2d_forward
       \<lparr>conv = \<lparr>in_channels = 1, out_channels = 1, kernel_size = (3, 3), stride = (1, 1),
          padding = (0, 0), dilation = (1, 1), groups = 1, conv_arith = zero_arith\<rparr>,
          split_indices = (0, 1)\<rparr>
       (Tensor (1, 1, 3, 3) [[[[1, 2, 3], [4, 5, 6], [7, 8, 9]]]]) =
     Inl RuntimeError"
  by (simp add: Conv2d_init_def PartialConv2d_init_def Conv2d_forward_def PartialConv2d_forward_def
      torch_split_def narrow1_def torch_cat_def conv_out_def tab4_def zero_arith_def upt_small
      int_of_float_def)

section \<open>Broadcasting, stochastic depth and layer scale\<close>

lemma bidx_lt [simp]: "i < s \<Longrightarrow> bidx s i = i"
  by (auto simp: bidx_def)

lemma bidx_one [simp]: "bidx 1 i = 0" "bidx (Suc 0) i = 0"
  by (simp_all add: bidx_def)

lemma bdim_right: "a' = a \<or> a' = 1 \<Longrightarrow> bdim a a' = Some a"
  by (auto simp: bdim_def)

lemma bdim_left: "a' = a \<or> a' = 1 \<Longrightarrow> bdim a' a = Some a"
  by (auto simp: bdim_def)

lemma broadcast2_right:
  assumes "shape x = (a, b, c, d)" and "shape y = (a', b', c', d')"
    and "a' = a \<or> a' = 1" "b' = b \<or> b' = 1" "c' = c \<or> c' = 1" "d' = d \<or> d' = 1"
  shows "\<exists>t. broadcast2 f x y = Inr t \<and> shape t = (a, b, c, d) \<and>
    (\<forall>i<a. \<forall>j<b. \<forall>p<c. \<forall>q<d. at4 t i j p q =
       f (at4 x i j p q) (at4 y (bidx a' i) (bidx b' j) (bidx c' p) (bidx d' q)))"
  using assms by (simp add: broadcast2_def bdim_right at4_tab4)

lemma broadcast2_left:
  assumes "shape x = (a', b', c', d')" and "shape y = (a, b, c, d)"
    and "a' = a \<or> a' = 1" "b' = b \<or> b' = 1" "c' = c \<or> c' = 1" "d' = d \<or> d' = 1"
  shows "\<exists>t. broadcast2 f x y = Inr t \<and> shape t = (a, b, c, d) \<and>
    (\<forall>i<a. \<forall>j<b. \<forall>p<c. \<forall>q<d. at4 t i j p q =
       f (at4 x (bidx a' i) (bidx b' j) (bidx c' p) (bidx d' q)) (at4 y i j p q))"
  using assms by (simp add: broadcast2_def bdim_left at4_tab4)

lemma shape_tmap [simp]: "shape (tmap f x) = shape x"
  by (simp add: tmap_def)

lemma at4_tmap:
  "shape x = (a, b, c, d) \<Longrightarrow> i < a \<Longrightarrow> j < b \<Longrightarrow> p < c \<Longrightarrow> q < d \<Longrightarrow>
   at4 (tmap f x) i j p q = f (at4 x i j p q)"
  by (simp add: tmap_def at4_tab4)

lemma at4_mean1:
  "shape x = (n, c, h, w) \<Longrightarrow> i < n \<Longrightarrow> p < h \<Longrightarrow> q < w \<Longrightarrow>
   at4 (mean1 x) i 0 p q = sum_list (map (\<lambda>k. at4 x i k p q) [0..<c]) / of_nat c"
  by (simp add: mean1_def at4_tab4)

lemma at4_chan_vec: "j < length v \<Longrightarrow> at4 (chan_vec v) 0 j 0 0 = v ! j"
  by (simp add: chan_vec_def at4_def)

lemma shape_chan_vec [simp]: "shape (chan_vec v) = (1, length v, 1, 1)"
  by (simp add: chan_vec_def)



lemma sum_list_upt: "sum_list (map f [0..<c]) = (\<Sum>j<c. f j)"
  by (simp add: interv_sum_list_conv_sum_set_nat lessThan_atLeast0)

lemma drop_path_forward_eval: "drop_path_forward m False rnd x = x"
  by (cases m) (simp_all add: drop_path_forward_def)

text \<open>
  C8. In inference mode (\<open>training = False\<close>) the stochastic-depth module returns its
  input unchanged, without scaling, and the result of either block does not depend on the
  random draws: two runs on the same input with the same parameters give the same result.
\<close>

theorem inference_is_deterministic:
  "drop_path_forward m False rnd x = x \<and>
   Block_forward b False rnd x = Block_forward b False rnd' x \<and>
   MSCABlock_forward b' False rnd x = MSCABlock_forward b' False rnd' x"
  by (simp add: drop_path_forward_eval Block_forward_def MSCABlock_forward_def)


lemma training_depends_on_draws:
  "drop_path_forward (DropPath (1 / 2)) True (\<lambda>_. True) (Tensor (1, 1, 1, 1) [[[[1]]]]) =
     Tensor (1, 1, 1, 1) [[[[2]]]] \<and>
   drop_path_forward (DropPath (1 / 2)) True (\<lambda>_. False) (Tensor (1, 1, 1, 1) [[[[1]]]]) =
     Tensor (1, 1, 1, 1) [[[[0]]]]"
  by (simp add: drop_path_forward_def tab4_def at4_def)














section \<open>Channel-first normalisation\<close>

lemma LayerNorm_channels_first_elems:
  assumes fmt: "data_format m = ''channels_first''"
    and lw: "length (weight m) = c" and lb: "length (bias m) = c"
    and sx: "shape x = (n, c, h, w)"
  shows "\<exists>y. LayerNorm_forward m x = Inr y \<and> shape y = (n, c, h, w) \<and>
    (\<forall>i<n. \<forall>j<c. \<forall>p<h. \<forall>q<w. at4 y i j p q =
       weight m ! j * ((at4 x i j p q - channel_mean x i p q) / sqrt (channel_var x i p q + eps m))
       + bias m ! j)"
proof -
  let ?u = "mean1 x"
  have su: "shape ?u = (n, 1, h, w)" by (rule shape_mean1[OF sx])
  obtain xu where xu: "broadcast2 (-) x ?u = Inr xu" and sxu: "shape xu = (n, c, h, w)"
    and exu: "\<forall>i<n. \<forall>j<c. \<forall>p<h. \<forall>q<w. at4 xu i j p q =
       at4 x i j p q - at4 ?u (bidx n i) (bidx 1 j) (bidx h p) (bidx w q)"
    using broadcast2_right[OF sx su, of "(-)"] by auto
  have um: "at4 ?u i 0 p q = channel_mean x i p q" if "i < n" "p < h" "q < w" for i p q
    using that by (simp add: at4_mean1[OF sx] channel_mean_def sx sum_list_upt)
  have exu': "at4 xu i j p q = at4 x i j p q - channel_mean x i p q"
    if "i < n" "j < c" "p < h" "q < w" for i j p q
    using that exu um by simp
  let ?s = "mean1 (tmap (\<lambda>v. v\<^sup>2) xu)"
  have ssq: "shape (tmap (\<lambda>v. v\<^sup>2) xu) = (n, c, h, w)" using sxu by simp
  have ss: "shape ?s = (n, 1, h, w)" by (rule shape_mean1[OF ssq])
  have sv: "at4 ?s i 0 p q = channel_var x i p q" if "i < n" "p < h" "q < w" for i p q
  proof -
    have "sum_list (map (\<lambda>k. at4 (tmap (\<lambda>v. v\<^sup>2) xu) i k p q) [0..<c]) =
          sum_list (map (\<lambda>k. (at4 x i k p q - channel_mean x i p q)\<^sup>2) [0..<c])"
      using that by (intro arg_cong[where f = sum_list] map_cong refl)
        (simp add: at4_tmap[OF sxu] exu')
    then show ?thesis
      using that by (simp add: at4_mean1[OF ssq] channel_var_def sx sum_list_upt)
  qed
  let ?den = "tmap sqrt (tmap (\<lambda>v. v + eps m) ?s)"
  have sd: "shape ?den = (n, 1, h, w)" using ss by simp
  have ed: "at4 ?den i 0 p q = sqrt (channel_var x i p q + eps m)" if "i < n" "p < h" "q < w" for i p q
  proof -
    have s1: "shape (tmap (\<lambda>v. v + eps m) ?s) = (n, 1, h, w)" using ss by simp
    show ?thesis using that by (simp add: at4_tmap[OF s1] at4_tmap[OF ss] sv)
  qed
  obtain x' where x': "broadcast2 (/) xu ?den = Inr x'" and sx': "shape x' = (n, c, h, w)"
    and ex: "\<forall>i<n. \<forall>j<c. \<forall>p<h. \<forall>q<w. at4 x' i j p q =
       at4 xu i j p q / at4 ?den (bidx n i) (bidx 1 j) (bidx h p) (bidx w q)"
    using broadcast2_right[OF sxu sd, of "(/)"] by auto
  have ex': "at4 x' i j p q = (at4 x i j p q - channel_mean x i p q) / sqrt (channel_var x i p q + eps m)"
    if "i < n" "j < c" "p < h" "q < w" for i j p q
    using that ex exu' ed by simp
  have sw: "shape (chan_vec (weight m)) = (1, c, 1, 1)" using lw by simp
  obtain wx where wx: "broadcast2 (*) (chan_vec (weight m)) x' = Inr wx" and swx: "shape wx = (n, c, h, w)"
    and ew: "\<forall>i<n. \<forall>j<c. \<forall>p<h. \<forall>q<w. at4 wx i j p q =
       at4 (chan_vec (weight m)) (bidx 1 i) (bidx c j) (bidx 1 p) (bidx 1 q) * at4 x' i j p q"
    using broadcast2_left[OF sw sx', of "(*)"] by auto
  have sb: "shape (chan_vec (bias m)) = (1, c, 1, 1)" using lb by simp
  obtain y where y: "broadcast2 (+) wx (chan_vec (bias m)) = Inr y" and sy: "shape y = (n, c, h, w)"
    and ey: "\<forall>i<n. \<forall>j<c. \<forall>p<h. \<forall>q<w. at4 y i j p q =
       at4 wx i j p q + at4 (chan_vec (bias m)) (bidx 1 i) (bidx c j) (bidx 1 p) (bidx 1 q)"
    using broadcast2_right[OF swx sb, of "(+)"] by auto
  have fw: "LayerNorm_forward m x = Inr y"
    by (simp add: LayerNorm_forward_def fmt Let_def xu x' wx y)
  have "at4 y i j p q =
       weight m ! j * ((at4 x i j p q - channel_mean x i p q) / sqrt (channel_var x i p q + eps m))
       + bias m ! j" if "i < n" "j < c" "p < h" "q < w" for i j p q
    using that ey ew ex' lw lb by (simp add: at4_chan_vec)
  with fw sy show ?thesis by blast
qed


text \<open>
  C6. In channel-first mode, on an input of shape \<open>[N, C, H, W]\<close> with \<open>C\<close> the length of
  the layer's weight and bias, \<open>LayerNorm.forward\<close> returns a tensor of the input's shape
  whose element at batch index \<open>i\<close>, channel \<open>j\<close> and position \<open>(p, q)\<close> is
  \<open>weight[j] * (x - mean) / sqrt(var + eps) + bias[j]\<close>, with the mean and the biased
  variance taken over the channels at \<open>(i, p, q)\<close> and \<open>eps\<close> added before the square root.
  Numbers are real numbers here.
\<close>

theorem LayerNorm_channels_first_formula:
  assumes "data_format m = ''channels_first''"
    and "length (weight m) = c" and "length (bias m) = c"
    and "shape x = (n, c, h, w)"
  shows "\<exists>y. LayerNorm_forward m x = Inr y \<and> shape y = shape x \<and>
    (\<forall>i<n. \<forall>j<c. \<forall>p<h. \<forall>q<w. at4 y i j p q =
       weight m ! j * (at4 x i j p q - channel_mean x i p q) / sqrt (channel_var x i p q + eps m)
       + bias m ! j)"
  using LayerNorm_channels_first_elems[OF assms] assms(4) by simp

theorem LayerNorm_channels_first_formula_witness:
  "\<exists>m. LayerNorm_init 2 3 ''channels_first'' = Inr m \<and>
     data_format m = ''channels_first'' \<and> length (weight m) = 2 \<and> length (bias m) = 2 \<and>
     LayerNorm_forward m (Tensor (1, 2, 1, 1) [[[[0]], [[2]]]]) =
       Inr (Tensor (1, 2, 1, 1) [[[[- (1 / 2)]], [[1 / 2]]]]) \<and>
     channel_mean (Tensor (1, 2, 1, 1) [[[[0]], [[2]]]]) 0 0 0 = 1 \<and>
     channel_var (Tensor (1, 2, 1, 1) [[[[0]], [[2]]]]) 0 0 0 = 1"
proof -
  let ?x = "Tensor (1, 2, 1, 1) [[[[0 :: real]], [[2]]]]"
  let ?m = "\<lparr>weight = [1, 1], bias = [0, 0], eps = 3, data_format = ''channels_first'',
             normalized_shape = 2\<rparr>"
  have m: "LayerNorm_init 2 3 ''channels_first'' = Inr ?m"
    by (simp add: LayerNorm_init_def numeral_eq_Suc)
  have sx: "shape ?x = (1, 2, 1, 1)" by simp
  have lt2: "{..<2 :: nat} = {0, 1}" by auto
  have cm: "channel_mean ?x 0 0 0 = 1" by (simp add: channel_mean_def at4_def lt2)
  have cv: "channel_var ?x 0 0 0 = 1" using cm by (simp add: channel_var_def at4_def lt2)
  have fw: "LayerNorm_forward ?m ?x = Inr (Tensor (1, 2, 1, 1) [[[[- (1 / 2)]], [[1 / 2]]]])"
    by (simp add: LayerNorm_forward_def mean1_def broadcast2_def bdim_def bidx_def tmap_def
        chan_vec_def tab4_def at4_def upt_small Let_def)
  note t = LayerNorm_channels_first_formula[of ?m 2 ?x 1 1 1]
  show ?thesis using t m fw cm cv by simp
qed

end
